theory Spec2Isabelle
  imports Main "HOL-Library.Sublist"
begin

section \<open>JavaScript values that cross the boundary\<close>

text \<open>
  The source is \<^verbatim>\<open>packages/bytebot-agent/src/openai/openai.service.ts\<close>, the adapter
  between the stored conversation (content blocks) and the OpenAI wire protocols, and
  \<^verbatim>\<open>openai.constants.ts\<close>.

  A tool input and the result of \<^verbatim>\<open>JSON.parse\<close> are JSON values. Numbers are integers
  here: token counts and call arguments are what the adapter passes through, it computes
  with none of them.
\<close>

datatype json =
    JNull
  | JBool bool
  | JNumber int
  | JString string
  | JArray "json list"
  | JObject "(string \<times> json) list"

text \<open>
  A thrown value, as the \<^verbatim>\<open>catch\<close> block of \<^verbatim>\<open>generateMessage\<close> observes it:
  \<^verbatim>\<open>error instanceof APIUserAbortError\<close>, \<^verbatim>\<open>error?.status\<close> and \<^verbatim>\<open>error?.message\<close>
  (\<open>Some m\<close> exactly when \<^verbatim>\<open>typeof error.message === 'string'\<close>).
\<close>

record js_error =
  instanceof_APIUserAbortError :: bool
  status :: "int option"
  message :: "string option"

text \<open>The \<^verbatim>\<open>SyntaxError\<close> of \<^verbatim>\<open>JSON.parse\<close>, with the engine's message.\<close>

definition SyntaxError :: "string \<Rightarrow> js_error" where
  "SyntaxError msg =
     \<lparr>instanceof_APIUserAbortError = False, status = None, message = Some msg\<rparr>"

section \<open>The internal representation\<close>

text \<open>
  \<^verbatim>\<open>Role\<close> (from the Prisma client) and the content blocks (from \<^verbatim>\<open>@bytebot/shared\<close>) are
  declared outside the two source files; they are modelled by the fields and type tags
  that the adapter reads. \<^verbatim>\<open>MessageContentBlock\<close> is a union tagged by \<^verbatim>\<open>type\<close>:

  \<^item> \<open>Text text\<close>
  \<^item> \<open>Image media_type data\<close>, the two fields of \<^verbatim>\<open>source\<close> that are read
  \<^item> \<open>ToolUse id name input\<close>; the name is \<open>None\<close> where the adapter itself stores
    \<^verbatim>\<open>undefined\<close> (a fallback tool call without a function name)
  \<^item> \<open>ToolResult tool_use_id content\<close>
  \<^item> \<open>Thinking thinking signature\<close>
  \<^item> \<open>UserAction content\<close>
  \<^item> \<open>OtherBlock type\<close>, a block of any other type (document, redacted thinking, ...)
\<close>

datatype Role = USER | ASSISTANT

datatype MessageContentBlock =
    Text string
  | Image string string
  | ToolUse string "string option" json
  | ToolResult string "MessageContentBlock list"
  | Thinking string string
  | UserAction "MessageContentBlock list"
  | OtherBlock string

record Message =
  role :: Role
  content :: "MessageContentBlock list"

record TokenUsage =
  inputTokens :: int
  outputTokens :: int
  totalTokens :: int

record BytebotAgentResponse =
  contentBlocks :: "MessageContentBlock list"
  tokenUsage :: TokenUsage

section \<open>The Responses protocol\<close>

text \<open>
  The content parts of a \<^verbatim>\<open>message\<close> item. \<open>InputText\<close> and \<open>OutputText\<close> carry a
  \<^verbatim>\<open>text\<close> field, \<open>OutputRefusal\<close> a \<^verbatim>\<open>refusal\<close> field, \<open>InputImage detail image_url\<close>
  neither.
\<close>

datatype ResponseContent =
    InputText string
  | OutputText string
  | InputImage string string
  | OutputRefusal string

text \<open>
  The item types that \<^verbatim>\<open>formatOpenAIResponse\<close> names in its \<^verbatim>\<open>switch\<close> without reading
  more of the item than \<^verbatim>\<open>id\<close> and \<^verbatim>\<open>encrypted_content\<close>.
\<close>

datatype ToolCallType =
    file_search_call
  | web_search_call
  | computer_call
  | image_generation_call
  | code_interpreter_call
  | local_shell_call
  | mcp_call
  | mcp_list_tools
  | mcp_approval_request

text \<open>
  Request input items and response output items, a union tagged by \<^verbatim>\<open>type\<close>:

  \<^item> \<open>MessageItem role content\<close>, type \<^verbatim>\<open>message\<close>
  \<^item> \<open>FunctionCall call_id name arguments\<close>, type \<^verbatim>\<open>function_call\<close>
  \<^item> \<open>FunctionCallOutput call_id output\<close>, type \<^verbatim>\<open>function_call_output\<close>
  \<^item> \<open>ReasoningItem id encrypted_content\<close>, type \<^verbatim>\<open>reasoning\<close> (the adapter always
    sends \<^verbatim>\<open>summary: []\<close>); \<open>encrypted_content\<close> is optional
  \<^item> \<open>ToolCallItem type id encrypted_content\<close>, the nine tool call types above, read
    through the cast \<^verbatim>\<open>item as ResponseReasoningItem\<close>
  \<^item> \<open>UnknownItem type\<close>, an item whose type the \<^verbatim>\<open>switch\<close> does not name
\<close>

datatype ResponseItem =
    MessageItem string "ResponseContent list"
  | FunctionCall string "string option" string
  | FunctionCallOutput string string
  | ReasoningItem string "string option"
  | ToolCallItem ToolCallType string "string option"
  | UnknownItem string

section \<open>The built-in JSON object\<close>

text \<open>
  \<^verbatim>\<open>JSON.stringify\<close> and \<^verbatim>\<open>JSON.parse\<close> belong to the language, not to the adapter, so
  every function below takes them as a parameter: \<open>stringify\<close> for
  \<^verbatim>\<open>JSON.stringify(value)\<close>, \<open>stringify_indent\<close> for \<^verbatim>\<open>JSON.stringify(value, null, 2)\<close>,
  \<open>stringify_block\<close> and \<open>stringify_item\<close> for the serialization of a whole block or
  item, and \<open>parse\<close> for \<^verbatim>\<open>JSON.parse\<close>, which returns the value or throws a
  \<^verbatim>\<open>SyntaxError\<close> (\<open>Inl\<close> its message).
\<close>

record JSON =
  stringify :: "json \<Rightarrow> string"
  stringify_indent :: "json \<Rightarrow> string"
  stringify_block :: "MessageContentBlock \<Rightarrow> string"
  stringify_item :: "ResponseItem \<Rightarrow> string"
  parse :: "string \<Rightarrow> string + json"

text \<open>A template literal prints an absent value as \<^verbatim>\<open>undefined\<close>.\<close>

fun template :: "string option \<Rightarrow> string" where
  "template None = ''undefined''"
| "template (Some s) = s"

section \<open>formatMessagesForOpenAI\<close>

text \<open>
  The type guards of \<^verbatim>\<open>@bytebot/shared\<close>. \<^verbatim>\<open>isComputerToolUseContentBlock\<close> narrows a
  block to a tool use block of a computer tool; which names those are is decided outside
  the source files, hence the parameter \<open>computerTool\<close>.
\<close>

fun isUserActionContentBlock :: "MessageContentBlock \<Rightarrow> bool" where
  "isUserActionContentBlock (UserAction c) = True"
| "isUserActionContentBlock b = False"

fun isImageContentBlock :: "MessageContentBlock \<Rightarrow> bool" where
  "isImageContentBlock (Image media_type data) = True"
| "isImageContentBlock b = False"

fun isComputerToolUseContentBlock ::
  "(string option \<Rightarrow> bool) \<Rightarrow> MessageContentBlock \<Rightarrow> bool" where
  "isComputerToolUseContentBlock computerTool (ToolUse i n inp) = computerTool n"
| "isComputerToolUseContentBlock computerTool b = False"

text \<open>\<^verbatim>\<open>block.content\<close> of a user action block, for the \<^verbatim>\<open>flatMap\<close>.\<close>

fun userActionContent :: "MessageContentBlock \<Rightarrow> MessageContentBlock list" where
  "userActionContent (UserAction c) = c"
| "userActionContent b = []"

definition imageMessage :: "string \<Rightarrow> string \<Rightarrow> ResponseItem" where
  "imageMessage media_type data =
     MessageItem ''user''
       [InputImage ''high'' (''data:'' @ media_type @ '';base64,'' @ data)]"

text \<open>
  Every loop of the source pushes onto \<^verbatim>\<open>openaiMessages\<close>; the array is passed through
  the loop bodies and returned extended. First the body of the loop over the blocks of a
  message that consists of user actions only.
\<close>

fun pushUserAction ::
  "JSON \<Rightarrow> (string option \<Rightarrow> bool) \<Rightarrow> MessageContentBlock \<Rightarrow> ResponseItem list
     \<Rightarrow> ResponseItem list" where
  "pushUserAction J computerTool block openaiMessages =
     (if isComputerToolUseContentBlock computerTool block then
        (case block of
           ToolUse i n inp \<Rightarrow>
             openaiMessages @
               [MessageItem ''user''
                  [InputText (''User performed action: '' @ template n @ [CHR 0x0A]
                              @ stringify_indent J inp)]]
         | _ \<Rightarrow> openaiMessages)
      else if isImageContentBlock block then
        (case block of
           Image media_type data \<Rightarrow> openaiMessages @ [imageMessage media_type data]
         | _ \<Rightarrow> openaiMessages)
      else openaiMessages)"

text \<open>The callback of \<^verbatim>\<open>toolResult.content.forEach\<close>: two independent \<^verbatim>\<open>if\<close>s.\<close>

fun pushToolResultContent ::
  "string \<Rightarrow> MessageContentBlock \<Rightarrow> ResponseItem list \<Rightarrow> ResponseItem list" where
  "pushToolResultContent tool_use_id c openaiMessages =
     (let pushed =
            (case c of
               Text t \<Rightarrow> openaiMessages @ [FunctionCallOutput tool_use_id t]
             | _ \<Rightarrow> openaiMessages)
      in case c of
           Image media_type data \<Rightarrow>
             pushed @ [FunctionCallOutput tool_use_id ''screenshot'',
                       imageMessage media_type data]
         | _ \<Rightarrow> pushed)"

text \<open>The \<^verbatim>\<open>switch (block.type)\<close>, with its \<^verbatim>\<open>default\<close> last.\<close>

fun pushBlock ::
  "JSON \<Rightarrow> Role \<Rightarrow> MessageContentBlock \<Rightarrow> ResponseItem list \<Rightarrow> ResponseItem list" where
  "pushBlock J r (Text t) openaiMessages =
     (if r = USER then openaiMessages @ [MessageItem ''user'' [InputText t]]
      else openaiMessages @ [MessageItem ''assistant'' [OutputText t]])"
| "pushBlock J r (ToolUse i n inp) openaiMessages =
     (if r = ASSISTANT then openaiMessages @ [FunctionCall i n (stringify J inp)]
      else openaiMessages)"
| "pushBlock J r (Thinking thinking signature) openaiMessages =
     openaiMessages @ [ReasoningItem signature (Some thinking)]"
| "pushBlock J r (ToolResult tool_use_id c) openaiMessages =
     fold (pushToolResultContent tool_use_id) c openaiMessages"
| "pushBlock J r block openaiMessages =
     openaiMessages @ [MessageItem ''user'' [InputText (stringify_block J block)]]"

fun pushMessage ::
  "JSON \<Rightarrow> (string option \<Rightarrow> bool) \<Rightarrow> Message \<Rightarrow> ResponseItem list \<Rightarrow> ResponseItem list" where
  "pushMessage J computerTool m openaiMessages =
     (if list_all isUserActionContentBlock (content m) then
        fold (pushUserAction J computerTool)
          (concat (map userActionContent (content m))) openaiMessages
      else fold (pushBlock J (role m)) (content m) openaiMessages)"

definition formatMessagesForOpenAI ::
  "JSON \<Rightarrow> (string option \<Rightarrow> bool) \<Rightarrow> Message list \<Rightarrow> ResponseItem list" where
  "formatMessagesForOpenAI J computerTool messages =
     fold (pushMessage J computerTool) messages []"

section \<open>formatOpenAIResponse\<close>

text \<open>
  The loop over \<^verbatim>\<open>message.content\<close>: \<^verbatim>\<open>'text' in content\<close>, else
  \<^verbatim>\<open>'refusal' in content\<close>, else nothing.
\<close>

fun pushOutputContent ::
  "ResponseContent \<Rightarrow> MessageContentBlock list \<Rightarrow> MessageContentBlock list" where
  "pushOutputContent (InputText t) blocks = blocks @ [Text t]"
| "pushOutputContent (OutputText t) blocks = blocks @ [Text t]"
| "pushOutputContent (OutputRefusal r) blocks =
     blocks @ [Text (''Refusal: '' @ r)]"
| "pushOutputContent (InputImage d u) blocks = blocks"

text \<open>\<^verbatim>\<open>if (reasoning.encrypted_content)\<close>: present and not the empty string.\<close>

fun pushReasoning ::
  "string \<Rightarrow> string option \<Rightarrow> MessageContentBlock list \<Rightarrow> MessageContentBlock list" where
  "pushReasoning i None blocks = blocks"
| "pushReasoning i (Some e) blocks =
     (if e = [] then blocks else blocks @ [Thinking e i])"

text \<open>
  The \<^verbatim>\<open>switch (item.type)\<close>. \<^verbatim>\<open>JSON.parse\<close> is called unguarded, so the body either
  returns the extended \<^verbatim>\<open>contentBlocks\<close> (here \<open>blocks\<close>) or throws.
\<close>

fun pushOutputItem ::
  "JSON \<Rightarrow> ResponseItem \<Rightarrow> MessageContentBlock list \<Rightarrow> js_error + MessageContentBlock list"
  where
  "pushOutputItem J (MessageItem r c) blocks =
     Inr (fold pushOutputContent c blocks)"
| "pushOutputItem J (FunctionCall call_id n arguments) blocks =
     (case parse J arguments of
        Inl msg \<Rightarrow> Inl (SyntaxError msg)
      | Inr v \<Rightarrow> Inr (blocks @ [ToolUse call_id n v]))"
| "pushOutputItem J (ReasoningItem i e) blocks = Inr (pushReasoning i e blocks)"
| "pushOutputItem J (ToolCallItem file_search_call i e) blocks =
     Inr (pushReasoning i e blocks)"
| "pushOutputItem J (ToolCallItem web_search_call i e) blocks =
     Inr (pushReasoning i e blocks)"
| "pushOutputItem J (ToolCallItem computer_call i e) blocks =
     Inr (pushReasoning i e blocks)"
| "pushOutputItem J (ToolCallItem ty i e) blocks =
     Inr (blocks @ [Text (stringify_item J (ToolCallItem ty i e))])"
| "pushOutputItem J item blocks =
     Inr (blocks @ [Text (stringify_item J item)])"

fun formatOpenAIResponse_loop ::
  "JSON \<Rightarrow> ResponseItem list \<Rightarrow> MessageContentBlock list \<Rightarrow> js_error + MessageContentBlock list"
  where
  "formatOpenAIResponse_loop J [] blocks = Inr blocks"
| "formatOpenAIResponse_loop J (item # rest) blocks =
     (case pushOutputItem J item blocks of
        Inl e \<Rightarrow> Inl e
      | Inr pushed \<Rightarrow> formatOpenAIResponse_loop J rest pushed)"

definition formatOpenAIResponse ::
  "JSON \<Rightarrow> ResponseItem list \<Rightarrow> js_error + MessageContentBlock list" where
  "formatOpenAIResponse J response = formatOpenAIResponse_loop J response []"

section \<open>Strings and truthiness\<close>

text \<open>
  \<^verbatim>\<open>a || d\<close> for a string or \<^verbatim>\<open>undefined\<close> on the left and a string on the right: the
  left operand unless it is absent or empty.
\<close>

fun or_string :: "string option \<Rightarrow> string \<Rightarrow> string" where
  "or_string None d = d"
| "or_string (Some s) d = (if s = [] then d else s)"

text \<open>\<^verbatim>\<open>a || b\<close> where the right operand may be \<^verbatim>\<open>undefined\<close> as well.\<close>

fun or_undefined :: "string option \<Rightarrow> string option \<Rightarrow> string option" where
  "or_undefined None b = b"
| "or_undefined (Some s) b = (if s = [] then b else Some s)"

text \<open>\<^verbatim>\<open>n || 0\<close> for a count that may be absent.\<close>

fun or_zero :: "int option \<Rightarrow> int" where
  "or_zero None = 0"
| "or_zero (Some n) = (if n = 0 then 0 else n)"

text \<open>\<^verbatim>\<open>s.includes(sub)\<close> and \<^verbatim>\<open>xs.join(sep)\<close>.\<close>

fun string_includes :: "string \<Rightarrow> string \<Rightarrow> bool" where
  "string_includes [] sub = (sub = [])"
| "string_includes (c # cs) sub = (prefix sub (c # cs) \<or> string_includes cs sub)"

fun join :: "string list \<Rightarrow> string \<Rightarrow> string" where
  "join [] sep = []"
| "join [x] sep = x"
| "join (x # y # ys) sep = x @ sep @ join (y # ys) sep"

text \<open>
  \<^verbatim>\<open>/responses/i.test(s)\<close>: the pattern occurs somewhere in \<open>s\<close>, each of its letters in
  either case (without the \<^verbatim>\<open>u\<close> flag only the two ASCII letters match).
\<close>

definition upper :: "char \<Rightarrow> char" where
  "upper c =
     (case map_of (zip ''abcdefghijklmnopqrstuvwxyz'' ''ABCDEFGHIJKLMNOPQRSTUVWXYZ'') c of
        None \<Rightarrow> c
      | Some u \<Rightarrow> u)"

fun matchesAt :: "string \<Rightarrow> string \<Rightarrow> bool" where
  "matchesAt [] s = True"
| "matchesAt (p # ps) [] = False"
| "matchesAt (p # ps) (c # cs) = ((c = p \<or> c = upper p) \<and> matchesAt ps cs)"

fun regex_test_i :: "string \<Rightarrow> string \<Rightarrow> bool" where
  "regex_test_i pat [] = matchesAt pat []"
| "regex_test_i pat (c # cs) = (matchesAt pat (c # cs) \<or> regex_test_i pat cs)"

section \<open>The Chat Completions protocol\<close>

text \<open>
  A chat message of the fallback request: \<open>ChatMessage role content\<close>, or
  \<open>ChatToolMessage tool_call_id content\<close> with role \<^verbatim>\<open>tool\<close>.
\<close>

datatype ChatMessageParam =
    ChatMessage string string
  | ChatToolMessage string string

text \<open>
  \<^verbatim>\<open>(b as any).text\<close>: of the block types above only the text block has that field.
\<close>

fun text_field :: "MessageContentBlock \<Rightarrow> string option" where
  "text_field (Text t) = Some t"
| "text_field b = None"

fun isText :: "MessageContentBlock \<Rightarrow> bool" where
  "isText (Text t) = True"
| "isText b = False"

text \<open>\<^verbatim>\<open>.filter(Boolean)\<close> on strings that may be absent.\<close>

fun filterBoolean :: "string option list \<Rightarrow> string list" where
  "filterBoolean [] = []"
| "filterBoolean (None # xs) = filterBoolean xs"
| "filterBoolean (Some s # xs) = (if s = [] then filterBoolean xs else s # filterBoolean xs)"

text \<open>The second loop over the blocks of a message: tool results become tool messages.\<close>

fun pushChatToolResult ::
  "MessageContentBlock \<Rightarrow> ChatMessageParam list \<Rightarrow> ChatMessageParam list" where
  "pushChatToolResult (ToolResult tool_use_id c) out =
     (let textParts =
            filterBoolean (map (\<lambda>p. if isText p then text_field p else Some []) c);
          joined = join textParts [CHR 0x0A]
      in out @ [ChatToolMessage tool_use_id
                  (if joined = [] then ''tool result'' else joined)])"
| "pushChatToolResult b out = out"

fun pushChatMessage :: "Message \<Rightarrow> ChatMessageParam list \<Rightarrow> ChatMessageParam list" where
  "pushChatMessage m out =
     (let blocks = content m;
          texts =
            filterBoolean
              (map text_field
                 (filter (\<lambda>b. isText b \<or> (case text_field b of None \<Rightarrow> False
                                                 | Some t \<Rightarrow> t \<noteq> [])) blocks));
          pushed =
            (if texts \<noteq> [] then
               out @ [ChatMessage (if role m = USER then ''user'' else ''assistant'')
                        (join texts [CHR 0x0A])]
             else out)
      in fold pushChatToolResult blocks pushed)"

definition formatMessagesForChat :: "Message list \<Rightarrow> string \<Rightarrow> ChatMessageParam list" where
  "formatMessagesForChat messages systemPrompt =
     fold pushChatMessage messages
       (if systemPrompt \<noteq> [] then [ChatMessage ''system'' systemPrompt] else [])"

text \<open>
  What the fallback reads of a completion. Every access in the source is guarded
  (\<^verbatim>\<open>completion.choices?.[0]\<close>, \<^verbatim>\<open>choice?.message\<close>, \<^verbatim>\<open>tc?.function?.name\<close>, ...), so
  every field may be absent. A content part is a string or an object with an optional
  \<^verbatim>\<open>text\<close>; a message content is a string, an array of parts, or some other truthy value.
\<close>

record ChatToolFunction =
  fn_name :: "string option"
  fn_arguments :: "string option"

record ChatToolCall =
  tc_id :: "string option"
  tc_function :: "ChatToolFunction option"

datatype ChatContentPart =
    PartString string
  | PartObject "string option"

datatype ChatMessageContent =
    ContentString string
  | ContentParts "ChatContentPart list"
  | ContentOther

record ChatCompletionMessage =
  msg_content :: "ChatMessageContent option"
  tool_calls :: "ChatToolCall list option"

record ChatChoice =
  choice_message :: "ChatCompletionMessage option"

record CompletionUsage =
  prompt_tokens :: "int option"
  completion_tokens :: "int option"
  chat_total_tokens :: "int option"

record ChatCompletion =
  choices :: "ChatChoice list option"
  chat_usage :: "CompletionUsage option"

section \<open>openai.constants.ts\<close>

record BytebotAgentModel =
  provider :: string
  model_name :: string
  title :: string
  contextWindow :: int

text \<open>\<open>env\<close> is \<^verbatim>\<open>process.env\<close> when the module is loaded.\<close>

definition isOpenRouter :: "(string \<Rightarrow> string option) \<Rightarrow> bool" where
  "isOpenRouter env =
     ((case env ''OPENAI_API_BASE'' of
         None \<Rightarrow> False
       | Some b \<Rightarrow> b \<noteq> [] \<and> string_includes b ''openrouter.ai'')
      \<or> (case env ''OPENAI_BASE_URL'' of
            None \<Rightarrow> False
          | Some b \<Rightarrow> b \<noteq> [] \<and> string_includes b ''openrouter.ai''))"

definition OPENAI_MODELS :: "(string \<Rightarrow> string option) \<Rightarrow> BytebotAgentModel list" where
  "OPENAI_MODELS env =
     (if isOpenRouter env then
        [\<lparr>provider = ''openai'', model_name = ''google/gemini-2.5-pro'',
          title = ''Gemini 2.5 Pro (OpenRouter)'', contextWindow = 200000\<rparr>,
         \<lparr>provider = ''openai'', model_name = ''anthropic/claude-3.7-sonnet'',
          title = ''Claude 3.7 Sonnet (OpenRouter)'', contextWindow = 200000\<rparr>,
         \<lparr>provider = ''openai'', model_name = ''openai/gpt-4o'',
          title = ''GPT-4o (OpenRouter)'', contextWindow = 200000\<rparr>]
      else
        [\<lparr>provider = ''openai'', model_name = ''o3-2025-04-16'',
          title = ''o3'', contextWindow = 200000\<rparr>,
         \<lparr>provider = ''openai'', model_name = ''gpt-4.1-2025-04-14'',
          title = ''GPT-4.1'', contextWindow = 1047576\<rparr>])"

definition DEFAULT_MODEL :: "(string \<Rightarrow> string option) \<Rightarrow> BytebotAgentModel" where
  "DEFAULT_MODEL env = OPENAI_MODELS env ! 0"

section \<open>The service and the provider\<close>

text \<open>
  The client \<^verbatim>\<open>this.openai\<close> as the constructor configures it, and the service with its
  two fields that hold data (the logger only writes log lines, which are not modelled).
\<close>

record OpenAI =
  apiKey :: string
  baseURL :: "string option"
  defaultHeaders :: "(string \<times> string) list"

record OpenAIService =
  openai :: OpenAI
  configService :: "string \<Rightarrow> string option"

definition OpenAIService_constructor :: "(string \<Rightarrow> string option) \<Rightarrow> OpenAIService" where
  "OpenAIService_constructor config =
     (let baseURL =
            or_undefined (config ''OPENAI_API_BASE'')
              (or_undefined (config ''OPENAI_BASE_URL'')
                 (or_undefined (config ''OPENAI_API_HOST'') None));
          httpReferer = config ''HTTP_REFERER'';
          xTitle = config ''X_TITLE''
      in \<lparr>openai =
            \<lparr>apiKey = or_string (config ''OPENAI_API_KEY'') ''dummy-key-for-initialization'',
             baseURL = baseURL,
             defaultHeaders =
               (case httpReferer of
                  None \<Rightarrow> []
                | Some h \<Rightarrow> if h = [] then [] else [(''HTTP-Referer'', h)])
               @ (case xTitle of
                    None \<Rightarrow> []
                  | Some t \<Rightarrow> if t = [] then [] else [(''X-Title'', t)])\<rparr>,
          configService = config\<rparr>)"

text \<open>
  \<^verbatim>\<open>openaiTools\<close> is declared in \<^verbatim>\<open>openai.tools.ts\<close>, outside the source files; a tool
  is the three fields the fallback copies.
\<close>

record FunctionTool =
  tool_name :: string
  tool_description :: string
  tool_parameters :: json

text \<open>\<open>ChatFunctionTool name description parameters\<close>, of type \<^verbatim>\<open>function\<close>.\<close>

datatype ChatTool = ChatFunctionTool string string json

type_synonym AbortSignal = nat

record ResponsesRequest =
  req_model :: string
  max_output_tokens :: int
  input :: "ResponseItem list"
  instructions :: string
  req_tools :: "FunctionTool list"
  reasoning_effort :: "string option"
  store :: bool
  req_include :: "string list"

record ChatRequest =
  chat_model :: string
  chat_messages :: "ChatMessageParam list"
  chat_tools :: "ChatTool list option"
  tool_choice :: "string option"

record ResponseUsage =
  input_tokens :: "int option"
  output_tokens :: "int option"
  total_tokens :: "int option"

record Response =
  response_output :: "ResponseItem list"
  usage :: "ResponseUsage option"

text \<open>
  The two \<^verbatim>\<open>create\<close> methods of the client, as the adapter sees them. A call either
  resolves with the provider's answer or rejects with an error; a call cancelled through
  the signal rejects with an \<^verbatim>\<open>APIUserAbortError\<close>. What a call answers is not the
  adapter's to decide, so it is a parameter.
\<close>

record Provider =
  responses_create ::
    "OpenAI \<Rightarrow> ResponsesRequest \<Rightarrow> AbortSignal option \<Rightarrow> js_error + Response"
  chat_completions_create ::
    "OpenAI \<Rightarrow> ChatRequest \<Rightarrow> AbortSignal option \<Rightarrow> js_error + ChatCompletion"

text \<open>
  The calls of the client's two \<^verbatim>\<open>create\<close> methods in one invocation, in the order they
  are made. One call is one entry, however many requests the client library sends for
  it (see the section on the client library).
\<close>

datatype ClientCall =
    ResponsesCreate ResponsesRequest "AbortSignal option"
  | ChatCompletionsCreate ChatRequest "AbortSignal option"

text \<open>What the module imports besides the built-ins.\<close>

record Imports =
  process_env :: "string \<Rightarrow> string option"
  openaiTools :: "FunctionTool list"
  computerToolName :: "string option \<Rightarrow> bool"

text \<open>
  What \<^verbatim>\<open>generateMessage\<close> throws: \<^verbatim>\<open>new BytebotAgentInterrupt()\<close>, or the caught error
  again.
\<close>

datatype Thrown = BytebotAgentInterrupt | Rethrown js_error

text \<open>
  One invocation: the promise's outcome, the service afterwards, and the calls of the
  client made.
\<close>

record Invocation =
  outcome :: "Thrown + BytebotAgentResponse"
  service :: OpenAIService
  calls :: "ClientCall list"

section \<open>generateMessage\<close>

text \<open>The fallback's reading of \<^verbatim>\<open>msg.content\<close> (lines 138 to 156).\<close>

fun truthy_content :: "ChatMessageContent \<Rightarrow> bool" where
  "truthy_content (ContentString s) = (s \<noteq> [])"
| "truthy_content (ContentParts ps) = True"
| "truthy_content ContentOther = True"

fun partText :: "ChatContentPart \<Rightarrow> string" where
  "partText (PartString s) = s"
| "partText (PartObject t) = or_string t []"

fun finalText :: "ChatMessageContent \<Rightarrow> string" where
  "finalText (ContentString s) = s"
| "finalText (ContentParts ps) =
     join (filter (\<lambda>t. t \<noteq> []) (map partText ps)) [CHR 0x0A]"
| "finalText ContentOther = []"

text \<open>
  The body of the loop over \<^verbatim>\<open>msg.tool_calls\<close> (lines 160 to 176):
  \<^verbatim>\<open>tc?.function?.name\<close>, \<^verbatim>\<open>tc?.function?.arguments\<close>, and the block that is pushed.
  The inner \<^verbatim>\<open>try\<close>/\<^verbatim>\<open>catch\<close> replaces arguments that do not parse by the empty
  object. (A tool call that is itself \<^verbatim>\<open>null\<close> reads like one without id and function.)
\<close>

definition functionName :: "ChatToolCall \<Rightarrow> string option" where
  "functionName tc = (case tc_function tc of None \<Rightarrow> None | Some f \<Rightarrow> fn_name f)"

definition functionArguments :: "ChatToolCall \<Rightarrow> string option" where
  "functionArguments tc =
     (case tc_function tc of None \<Rightarrow> None | Some f \<Rightarrow> fn_arguments f)"

definition toolCallBlock :: "JSON \<Rightarrow> ChatToolCall \<Rightarrow> MessageContentBlock" where
  "toolCallBlock J tc =
     (let name = functionName tc;
          args =
            (case functionArguments tc of
               None \<Rightarrow> JObject []
             | Some a \<Rightarrow>
                 if a = [] then JObject []
                 else (case parse J a of Inl msg \<Rightarrow> JObject [] | Inr v \<Rightarrow> v))
      in ToolUse (or_string (tc_id tc) (or_string name ''tool_call'')) name args)"

definition pushToolCall ::
  "JSON \<Rightarrow> ChatToolCall \<Rightarrow> MessageContentBlock list \<Rightarrow> MessageContentBlock list" where
  "pushToolCall J tc blocks = blocks @ [toolCallBlock J tc]"

definition chatContentBlocks :: "JSON \<Rightarrow> ChatCompletion \<Rightarrow> MessageContentBlock list" where
  "chatContentBlocks J completion =
     (let choice =
            (case choices completion of
               None \<Rightarrow> None
             | Some [] \<Rightarrow> None
             | Some (c # cs) \<Rightarrow> Some c);
          msg = (case choice of None \<Rightarrow> None | Some c \<Rightarrow> choice_message c);
          blocks =
            (case (case msg of None \<Rightarrow> None | Some m \<Rightarrow> msg_content m) of
               None \<Rightarrow> []
             | Some c \<Rightarrow>
                 if truthy_content c \<and> finalText c \<noteq> [] then [Text (finalText c)] else [])
      in case (case msg of None \<Rightarrow> None | Some m \<Rightarrow> tool_calls m) of
           None \<Rightarrow> blocks
         | Some tcs \<Rightarrow> fold (pushToolCall J) tcs blocks)"

text \<open>The condition of the fallback (lines 97 to 105).\<close>

definition likelyNeedsChatAPI :: "OpenAIService \<Rightarrow> js_error \<Rightarrow> bool" where
  "likelyNeedsChatAPI this error =
     (let base =
            or_string (configService this ''OPENAI_API_BASE'')
              (or_string (configService this ''OPENAI_BASE_URL'') [])
      in string_includes base ''openrouter.ai''
         \<or> status error = Some 404
         \<or> (case message error of None \<Rightarrow> False | Some m \<Rightarrow> regex_test_i ''responses'' m))"

text \<open>The end of the \<^verbatim>\<open>catch\<close> block (lines 194 to 202).\<close>

definition rethrow :: "js_error \<Rightarrow> Thrown" where
  "rethrow error =
     (if instanceof_APIUserAbortError error then BytebotAgentInterrupt else Rethrown error)"

definition responsesRequest ::
  "JSON \<Rightarrow> Imports \<Rightarrow> string \<Rightarrow> Message list \<Rightarrow> string \<Rightarrow> bool \<Rightarrow> ResponsesRequest" where
  "responsesRequest J I systemPrompt messages model useTools =
     (let isReasoning = prefix ''o'' model;
          openaiMessages = formatMessagesForOpenAI J (computerToolName I) messages;
          maxTokens = 8192
      in \<lparr>req_model = model,
          max_output_tokens = maxTokens,
          input = openaiMessages,
          instructions = systemPrompt,
          req_tools = (if useTools then openaiTools I else []),
          reasoning_effort = (if isReasoning then Some ''medium'' else None),
          store = False,
          req_include = (if isReasoning then [''reasoning.encrypted_content''] else [])\<rparr>)"

definition chatRequest ::
  "Imports \<Rightarrow> string \<Rightarrow> Message list \<Rightarrow> string \<Rightarrow> bool \<Rightarrow> ChatRequest" where
  "chatRequest I systemPrompt messages model useTools =
     (let chatMessages = formatMessagesForChat messages systemPrompt;
          chatTools =
            (if useTools then
               Some (map (\<lambda>t. ChatFunctionTool (tool_name t) (tool_description t)
                                 (tool_parameters t)) (openaiTools I))
             else None)
      in \<lparr>chat_model = model,
          chat_messages = chatMessages,
          chat_tools = chatTools,
          tool_choice = (if useTools then Some ''auto'' else None)\<rparr>)"

text \<open>
  The \<^verbatim>\<open>try\<close> block (lines 66 to 91): the request, and the conversion of its answer.
  An error of either lands in the \<^verbatim>\<open>catch\<close> block.
\<close>

definition primaryAttempt ::
  "JSON \<Rightarrow> Provider \<Rightarrow> OpenAIService \<Rightarrow> ResponsesRequest \<Rightarrow> AbortSignal option
     \<Rightarrow> js_error + BytebotAgentResponse" where
  "primaryAttempt J P this request signal =
     (case responses_create P (openai this) request signal of
        Inl error \<Rightarrow> Inl error
      | Inr response \<Rightarrow>
          (case formatOpenAIResponse J (response_output response) of
             Inl error \<Rightarrow> Inl error
           | Inr blocks \<Rightarrow>
               Inr \<lparr>contentBlocks = blocks,
                    tokenUsage =
                      \<lparr>inputTokens =
                         or_zero (case usage response of None \<Rightarrow> None
                                  | Some u \<Rightarrow> input_tokens u),
                       outputTokens =
                         or_zero (case usage response of None \<Rightarrow> None
                                  | Some u \<Rightarrow> output_tokens u),
                       totalTokens =
                         or_zero (case usage response of None \<Rightarrow> None
                                  | Some u \<Rightarrow> total_tokens u)\<rparr>\<rparr>))"

text \<open>The value the fallback returns (lines 132 to 186).\<close>

definition chatResponse :: "JSON \<Rightarrow> ChatCompletion \<Rightarrow> BytebotAgentResponse" where
  "chatResponse J completion =
     \<lparr>contentBlocks = chatContentBlocks J completion,
      tokenUsage =
        \<lparr>inputTokens =
           or_zero (case chat_usage completion of None \<Rightarrow> None
                    | Some u \<Rightarrow> prompt_tokens u),
         outputTokens =
           or_zero (case chat_usage completion of None \<Rightarrow> None
                    | Some u \<Rightarrow> completion_tokens u),
         totalTokens =
           or_zero (case chat_usage completion of None \<Rightarrow> None
                    | Some u \<Rightarrow> chat_total_tokens u)\<rparr>\<rparr>"

text \<open>
  The default parameters: \<^verbatim>\<open>model: string = DEFAULT_MODEL.name\<close> and
  \<^verbatim>\<open>useTools: boolean = true\<close>.
\<close>

fun modelOrDefault :: "Imports \<Rightarrow> string option \<Rightarrow> string" where
  "modelOrDefault I None = model_name (DEFAULT_MODEL (process_env I))"
| "modelOrDefault I (Some m) = m"

fun useToolsOrDefault :: "bool option \<Rightarrow> bool" where
  "useToolsOrDefault None = True"
| "useToolsOrDefault (Some b) = b"

text \<open>
  \<^verbatim>\<open>generateMessage(systemPrompt, messages, model, useTools, signal)\<close>. The service is
  returned as it was: no statement of the method assigns to a field of \<^verbatim>\<open>this\<close>.
\<close>

definition generateMessage ::
  "JSON \<Rightarrow> Imports \<Rightarrow> Provider \<Rightarrow> OpenAIService \<Rightarrow> string \<Rightarrow> Message list
     \<Rightarrow> string option \<Rightarrow> bool option \<Rightarrow> AbortSignal option \<Rightarrow> Invocation" where
  "generateMessage J I P this systemPrompt messages model_arg useTools_arg signal =
     (let model = modelOrDefault I model_arg;
          useTools = useToolsOrDefault useTools_arg;
          request = responsesRequest J I systemPrompt messages model useTools
      in case primaryAttempt J P this request signal of
           Inr response \<Rightarrow>
             \<lparr>outcome = Inr response, service = this,
              calls = [ResponsesCreate request signal]\<rparr>
         | Inl error \<Rightarrow>
             if likelyNeedsChatAPI this error then
               (let chat = chatRequest I systemPrompt messages model useTools
                in case chat_completions_create P (openai this) chat signal of
                     Inr completion \<Rightarrow>
                       \<lparr>outcome = Inr (chatResponse J completion), service = this,
                        calls = [ResponsesCreate request signal,
                                 ChatCompletionsCreate chat signal]\<rparr>
                   | Inl fallbackErr \<Rightarrow>
                       \<lparr>outcome = Inl (rethrow error), service = this,
                        calls = [ResponsesCreate request signal,
                                 ChatCompletionsCreate chat signal]\<rparr>)
             else
               \<lparr>outcome = Inl (rethrow error), service = this,
                calls = [ResponsesCreate request signal]\<rparr>)"

section \<open>The client library below the calls\<close>

text \<open>
  \<^verbatim>\<open>create\<close> is a method of the OpenAI client library, a dependency of the adapter. The
  constructor builds the client from \<^verbatim>\<open>apiKey\<close>, \<^verbatim>\<open>baseURL\<close> and \<^verbatim>\<open>defaultHeaders\<close> only
  (lines 48 to 55): it passes no \<^verbatim>\<open>maxRetries\<close>, so the library's default number of
  retries holds for every call. The library sends the request and, while the attempt
  fails with an error that it retries and retries remain, waits and sends it again; the
  wait is not modelled. The default and the errors that are retried belong to the
  library, hence the parameter \<open>ClientLibrary\<close>.

  A \<open>Transport\<close> is the provider one level down: its answer to the request number \<open>k\<close>
  (from \<open>0\<close>) that one call sends.
\<close>

record ClientLibrary =
  defaultMaxRetries :: nat
  shouldRetry :: "js_error \<Rightarrow> bool"

record Transport =
  post_responses ::
    "OpenAI \<Rightarrow> ResponsesRequest \<Rightarrow> AbortSignal option \<Rightarrow> nat \<Rightarrow> js_error + Response"
  post_chat_completions ::
    "OpenAI \<Rightarrow> ChatRequest \<Rightarrow> AbortSignal option \<Rightarrow> nat \<Rightarrow> js_error + ChatCompletion"

text \<open>
  One call with \<open>retriesRemaining\<close> retries left after \<open>sent\<close> requests: the answer of
  the call, and the number of requests sent when it ends.
\<close>

fun makeRequest ::
  "(js_error \<Rightarrow> bool) \<Rightarrow> (nat \<Rightarrow> js_error + 'a) \<Rightarrow> nat \<Rightarrow> nat \<Rightarrow> (js_error + 'a) \<times> nat"
  where
  "makeRequest retried post 0 sent = (post sent, Suc sent)"
| "makeRequest retried post (Suc retriesRemaining) sent =
     (case post sent of
        Inr answer \<Rightarrow> (Inr answer, Suc sent)
      | Inl e \<Rightarrow>
          if retried e then makeRequest retried post retriesRemaining (Suc sent)
          else (Inl e, Suc sent))"

text \<open>The client of the library over a transport, and the requests that a call sends.\<close>

definition libraryClient :: "ClientLibrary \<Rightarrow> Transport \<Rightarrow> Provider" where
  "libraryClient L T =
     \<lparr>responses_create =
        (\<lambda>client request signal.
           fst (makeRequest (shouldRetry L) (post_responses T client request signal)
                  (defaultMaxRetries L) 0)),
      chat_completions_create =
        (\<lambda>client request signal.
           fst (makeRequest (shouldRetry L) (post_chat_completions T client request signal)
                  (defaultMaxRetries L) 0))\<rparr>"

fun requestsSent :: "ClientLibrary \<Rightarrow> Transport \<Rightarrow> OpenAI \<Rightarrow> ClientCall \<Rightarrow> nat" where
  "requestsSent L T client (ResponsesCreate request signal) =
     snd (makeRequest (shouldRetry L) (post_responses T client request signal)
            (defaultMaxRetries L) 0)"
| "requestsSent L T client (ChatCompletionsCreate request signal) =
     snd (makeRequest (shouldRetry L) (post_chat_completions T client request signal)
            (defaultMaxRetries L) 0)"

definition networkRequests ::
  "ClientLibrary \<Rightarrow> Transport \<Rightarrow> OpenAI \<Rightarrow> ClientCall list \<Rightarrow> nat" where
  "networkRequests L T client cs = sum_list (map (requestsSent L T client) cs)"

text \<open>
  The library as it documents itself: two retries by default; retried are connection
  errors (an error without status that is not the user's abort) and the statuses 408,
  409, 429 and 500 or more.
\<close>

definition openaiLibrary :: ClientLibrary where
  "openaiLibrary =
     \<lparr>defaultMaxRetries = 2,
      shouldRetry =
        (\<lambda>e. if instanceof_APIUserAbortError e then False
             else (case status e of
                     None \<Rightarrow> True
                   | Some s \<Rightarrow> s = 408 \<or> s = 409 \<or> s = 429 \<or> 500 \<le> s))\<rparr>"

section \<open>An instance of the JSON object\<close>

text \<open>
  The statements below hold for every \<open>JSON\<close>. To run them on concrete inputs, here is
  one: the compact serialization of the JSON values above (as \<^verbatim>\<open>JSON.stringify\<close> writes
  it, for strings of printable characters and line feeds), its indented form, and a
  parser for JSON texts whose numbers are integers and whose strings use no escape
  other than those of the quote, the backslash, the slash and the line feed. Nothing
  below depends on it beyond the values it takes on the texts of the scenarios.
\<close>

function natString :: "nat \<Rightarrow> string" where
  "natString n =
     (if n < 10 then [''0123456789'' ! n]
      else natString (n div 10) @ [''0123456789'' ! (n mod 10)])"
  by pat_completeness auto
termination
  by (relation "measure id") auto

declare natString.simps [simp del]

definition intString :: "int \<Rightarrow> string" where
  "intString i = (if i < 0 then CHR ''-'' # natString (nat (- i)) else natString (nat i))"

fun escapeChar :: "char \<Rightarrow> string" where
  "escapeChar c =
     (if c = CHR 0x22 then [CHR 0x5C, CHR 0x22]
      else if c = CHR 0x5C then [CHR 0x5C, CHR 0x5C]
      else if c = CHR 0x0A then [CHR 0x5C, CHR ''n'']
      else [c])"

definition quote :: "string \<Rightarrow> string" where
  "quote s = CHR 0x22 # concat (map escapeChar s) @ [CHR 0x22]"

fun jsonString :: "json \<Rightarrow> string" where
  "jsonString JNull = ''null''"
| "jsonString (JBool b) = (if b then ''true'' else ''false'')"
| "jsonString (JNumber i) = intString i"
| "jsonString (JString s) = quote s"
| "jsonString (JArray vs) = ''['' @ join (map jsonString vs) '','' @ '']''"
| "jsonString (JObject ms) =
     ''{'' @ join (map (\<lambda>m. quote (fst m) @ '':'' @ jsonString (snd m)) ms) '','' @ ''}''"

fun jsonIndented :: "nat \<Rightarrow> json \<Rightarrow> string" where
  "jsonIndented n (JArray vs) =
     (if vs = [] then ''[]''
      else ''['' @ [CHR 0x0A]
           @ join (map (\<lambda>v. replicate (n + 2) CHR '' '' @ jsonIndented (n + 2) v) vs)
               ('','' @ [CHR 0x0A])
           @ [CHR 0x0A] @ replicate n CHR '' '' @ '']'')"
| "jsonIndented n (JObject ms) =
     (if ms = [] then ''{}''
      else ''{'' @ [CHR 0x0A]
           @ join (map (\<lambda>m. replicate (n + 2) CHR '' '' @ quote (fst m) @ '': ''
                              @ jsonIndented (n + 2) (snd m)) ms)
               ('','' @ [CHR 0x0A])
           @ [CHR 0x0A] @ replicate n CHR '' '' @ ''}'')"
| "jsonIndented n v = jsonString v"

text \<open>The parser. \<open>parseChars\<close> reads a string literal after its opening quote.\<close>

definition unescape :: "char \<Rightarrow> char option" where
  "unescape e =
     map_of [(CHR 0x22, CHR 0x22), (CHR 0x5C, CHR 0x5C), (CHR ''/'', CHR ''/''),
             (CHR ''n'', CHR 0x0A)] e"

fun parseChars :: "string \<Rightarrow> (string \<times> string) option" where
  "parseChars [] = None"
| "parseChars [c] = (if c = CHR 0x22 then Some ([], []) else None)"
| "parseChars (c # e # cs) =
     (if c = CHR 0x22 then Some ([], e # cs)
      else if c = CHR 0x5C then
        (case unescape e of
           None \<Rightarrow> None
         | Some d \<Rightarrow>
             (case parseChars cs of None \<Rightarrow> None | Some (s, r) \<Rightarrow> Some (d # s, r)))
      else (case parseChars (e # cs) of None \<Rightarrow> None | Some (s, r) \<Rightarrow> Some (c # s, r)))"

definition skipWs :: "string \<Rightarrow> string" where
  "skipWs s = dropWhile (\<lambda>c. c \<in> set [CHR '' '', CHR 0x0A, CHR 0x09, CHR 0x0D]) s"

definition digitValue :: "char \<Rightarrow> nat option" where
  "digitValue c = map_of (zip ''0123456789'' [0, 1, 2, 3, 4, 5, 6, 7, 8, 9]) c"

fun digitsValue :: "string \<Rightarrow> nat \<Rightarrow> nat" where
  "digitsValue [] acc = acc"
| "digitsValue (c # cs) acc =
     digitsValue cs (10 * acc + (case digitValue c of None \<Rightarrow> 0 | Some d \<Rightarrow> d))"

definition parseNat :: "string \<Rightarrow> (nat \<times> string) option" where
  "parseNat s =
     (let ds = takeWhile (\<lambda>c. digitValue c \<noteq> None) s
      in if ds = [] \<or> (length ds > 1 \<and> prefix ''0'' ds) then None
         else Some (digitsValue ds 0, dropWhile (\<lambda>c. digitValue c \<noteq> None) s))"

fun parseNumber :: "string \<Rightarrow> (json \<times> string) option" where
  "parseNumber [] = None"
| "parseNumber (c # cs) =
     (if c = CHR ''-'' then
        (case parseNat cs of None \<Rightarrow> None | Some (n, r) \<Rightarrow> Some (JNumber (- int n), r))
      else (case parseNat (c # cs) of None \<Rightarrow> None | Some (n, r) \<Rightarrow> Some (JNumber (int n), r)))"

text \<open>
  The three mutually recursive readers take a bound on their nesting; twice the length
  of the text (and two) is enough for any text.
\<close>

fun parseValue :: "nat \<Rightarrow> string \<Rightarrow> (json \<times> string) option"
  and parseElements :: "nat \<Rightarrow> string \<Rightarrow> (json list \<times> string) option"
  and parseMembers :: "nat \<Rightarrow> string \<Rightarrow> ((string \<times> json) list \<times> string) option"
  where
  "parseValue 0 s = None"
| "parseValue (Suc k) s =
     (case skipWs s of
        [] \<Rightarrow> None
      | c # cs \<Rightarrow>
          if c = CHR ''n'' then (if prefix ''ull'' cs then Some (JNull, drop 3 cs) else None)
          else if c = CHR ''t'' then
            (if prefix ''rue'' cs then Some (JBool True, drop 3 cs) else None)
          else if c = CHR ''f'' then
            (if prefix ''alse'' cs then Some (JBool False, drop 4 cs) else None)
          else if c = CHR 0x22 then
            (case parseChars cs of None \<Rightarrow> None | Some (str, r) \<Rightarrow> Some (JString str, r))
          else if c = CHR ''['' then
            (case skipWs cs of
               [] \<Rightarrow> None
             | d # ds \<Rightarrow>
                 if d = CHR '']'' then Some (JArray [], ds)
                 else (case parseElements k cs of
                         None \<Rightarrow> None
                       | Some (vs, r) \<Rightarrow> Some (JArray vs, r)))
          else if c = CHR ''{'' then
            (case skipWs cs of
               [] \<Rightarrow> None
             | d # ds \<Rightarrow>
                 if d = CHR ''}'' then Some (JObject [], ds)
                 else (case parseMembers k cs of
                         None \<Rightarrow> None
                       | Some (ms, r) \<Rightarrow> Some (JObject ms, r)))
          else parseNumber (c # cs))"
| "parseElements 0 s = None"
| "parseElements (Suc k) s =
     (case parseValue k s of
        None \<Rightarrow> None
      | Some (v, r) \<Rightarrow>
          (case skipWs r of
             [] \<Rightarrow> None
           | c # cs \<Rightarrow>
               if c = CHR '','' then
                 (case parseElements k cs of
                    None \<Rightarrow> None
                  | Some (vs, r') \<Rightarrow> Some (v # vs, r'))
               else if c = CHR '']'' then Some ([v], cs)
               else None))"
| "parseMembers 0 s = None"
| "parseMembers (Suc k) s =
     (case skipWs s of
        [] \<Rightarrow> None
      | q # cs \<Rightarrow>
          if q = CHR 0x22 then
            (case parseChars cs of
               None \<Rightarrow> None
             | Some (key, r) \<Rightarrow>
                 (case skipWs r of
                    [] \<Rightarrow> None
                  | c # cs' \<Rightarrow>
                      if c = CHR '':'' then
                        (case parseValue k cs' of
                           None \<Rightarrow> None
                         | Some (v, r') \<Rightarrow>
                             (case skipWs r' of
                                [] \<Rightarrow> None
                              | d # ds \<Rightarrow>
                                  if d = CHR '','' then
                                    (case parseMembers k ds of
                                       None \<Rightarrow> None
                                     | Some (ms, r'') \<Rightarrow> Some ((key, v) # ms, r''))
                                  else if d = CHR ''}'' then Some ([(key, v)], ds)
                                  else None))
                      else None))
          else None)"

definition parseJSON :: "string \<Rightarrow> string + json" where
  "parseJSON s =
     (case parseValue (2 * length s + 2) s of
        None \<Rightarrow> Inl ''Unexpected token in JSON''
      | Some (v, r) \<Rightarrow> if skipWs r = [] then Inr v else Inl ''Unexpected token in JSON'')"

text \<open>Items and blocks as JSON values, with the field names of the source.\<close>

fun contentJson :: "ResponseContent \<Rightarrow> json" where
  "contentJson (InputText t) =
     JObject [(''type'', JString ''input_text''), (''text'', JString t)]"
| "contentJson (OutputText t) =
     JObject [(''type'', JString ''output_text''), (''text'', JString t)]"
| "contentJson (InputImage d u) =
     JObject [(''type'', JString ''input_image''), (''detail'', JString d),
              (''image_url'', JString u)]"
| "contentJson (OutputRefusal r) =
     JObject [(''type'', JString ''refusal''), (''refusal'', JString r)]"

fun toolCallTypeName :: "ToolCallType \<Rightarrow> string" where
  "toolCallTypeName file_search_call = ''file_search_call''"
| "toolCallTypeName web_search_call = ''web_search_call''"
| "toolCallTypeName computer_call = ''computer_call''"
| "toolCallTypeName image_generation_call = ''image_generation_call''"
| "toolCallTypeName code_interpreter_call = ''code_interpreter_call''"
| "toolCallTypeName local_shell_call = ''local_shell_call''"
| "toolCallTypeName mcp_call = ''mcp_call''"
| "toolCallTypeName mcp_list_tools = ''mcp_list_tools''"
| "toolCallTypeName mcp_approval_request = ''mcp_approval_request''"

text \<open>\<^verbatim>\<open>JSON.stringify\<close> leaves out a field whose value is \<^verbatim>\<open>undefined\<close>.\<close>

fun optionalField :: "string \<Rightarrow> string option \<Rightarrow> (string \<times> json) list" where
  "optionalField k None = []"
| "optionalField k (Some s) = [(k, JString s)]"

fun itemJson :: "ResponseItem \<Rightarrow> json" where
  "itemJson (MessageItem r c) =
     JObject [(''type'', JString ''message''), (''role'', JString r),
              (''content'', JArray (map contentJson c))]"
| "itemJson (FunctionCall call_id n arguments) =
     JObject ([(''type'', JString ''function_call''), (''call_id'', JString call_id)]
              @ optionalField ''name'' n @ [(''arguments'', JString arguments)])"
| "itemJson (FunctionCallOutput call_id out) =
     JObject [(''type'', JString ''function_call_output''), (''call_id'', JString call_id),
              (''output'', JString out)]"
| "itemJson (ReasoningItem i e) =
     JObject ([(''type'', JString ''reasoning''), (''id'', JString i)]
              @ optionalField ''encrypted_content'' e @ [(''summary'', JArray [])])"
| "itemJson (ToolCallItem ty i e) =
     JObject ([(''type'', JString (toolCallTypeName ty)), (''id'', JString i)]
              @ optionalField ''encrypted_content'' e)"
| "itemJson (UnknownItem ty) = JObject [(''type'', JString ty)]"

fun blockJson :: "MessageContentBlock \<Rightarrow> json" where
  "blockJson (Text t) = JObject [(''type'', JString ''text''), (''text'', JString t)]"
| "blockJson (Image media_type data) =
     JObject [(''type'', JString ''image''),
              (''source'', JObject [(''media_type'', JString media_type),
                                    (''data'', JString data)])]"
| "blockJson (ToolUse i n inp) =
     JObject ([(''type'', JString ''tool_use''), (''id'', JString i)]
              @ optionalField ''name'' n @ [(''input'', inp)])"
| "blockJson (ToolResult tool_use_id c) =
     JObject [(''type'', JString ''tool_result''), (''tool_use_id'', JString tool_use_id),
              (''content'', JArray (map blockJson c))]"
| "blockJson (Thinking thinking signature) =
     JObject [(''type'', JString ''thinking''), (''thinking'', JString thinking),
              (''signature'', JString signature)]"
| "blockJson (UserAction c) =
     JObject [(''type'', JString ''user_action''), (''content'', JArray (map blockJson c))]"
| "blockJson (OtherBlock ty) = JObject [(''type'', JString ty)]"

definition compactJSON :: JSON where
  "compactJSON =
     \<lparr>stringify = jsonString,
      stringify_indent = jsonIndented 0,
      stringify_block = (\<lambda>b. jsonString (blockJson b)),
      stringify_item = (\<lambda>i. jsonString (itemJson i)),
      parse = parseJSON\<rparr>"

section \<open>The conversions as the specification words them\<close>

text \<open>
  The items that the specification gives for a part of a tool result and for a block of
  a message with role \<open>r\<close>. The specification is silent on a tool use block outside an
  assistant message and on blocks of other types; there the definition says what the
  \<^verbatim>\<open>switch\<close> does (nothing, and the serialized block as user text).
\<close>

fun specifiedResultPartItems :: "string \<Rightarrow> MessageContentBlock \<Rightarrow> ResponseItem list" where
  "specifiedResultPartItems tool_use_id (Text t) = [FunctionCallOutput tool_use_id t]"
| "specifiedResultPartItems tool_use_id (Image media_type data) =
     [FunctionCallOutput tool_use_id ''screenshot'',
      MessageItem ''user''
        [InputImage ''high'' (''data:'' @ media_type @ '';base64,'' @ data)]]"
| "specifiedResultPartItems tool_use_id b = []"

fun specifiedBlockItems :: "JSON \<Rightarrow> Role \<Rightarrow> MessageContentBlock \<Rightarrow> ResponseItem list" where
  "specifiedBlockItems J USER (Text t) = [MessageItem ''user'' [InputText t]]"
| "specifiedBlockItems J ASSISTANT (Text t) = [MessageItem ''assistant'' [OutputText t]]"
| "specifiedBlockItems J ASSISTANT (ToolUse i n inp) = [FunctionCall i n (stringify J inp)]"
| "specifiedBlockItems J USER (ToolUse i n inp) = []"
| "specifiedBlockItems J r (Thinking thinking signature) =
     [ReasoningItem signature (Some thinking)]"
| "specifiedBlockItems J r (ToolResult tool_use_id c) =
     concat (map (specifiedResultPartItems tool_use_id) c)"
| "specifiedBlockItems J r b = [MessageItem ''user'' [InputText (stringify_block J b)]]"

text \<open>
  The blocks that the specification gives for a content part and for an output item.
  The three tool call types that share the \<^verbatim>\<open>case\<close> of \<^verbatim>\<open>reasoning\<close> are converted as a
  reasoning item is.
\<close>

fun specifiedPartBlocks :: "ResponseContent \<Rightarrow> MessageContentBlock list" where
  "specifiedPartBlocks (InputText t) = [Text t]"
| "specifiedPartBlocks (OutputText t) = [Text t]"
| "specifiedPartBlocks (OutputRefusal r) = [Text (''Refusal: '' @ r)]"
| "specifiedPartBlocks (InputImage d u) = []"

fun specifiedReasoningBlocks :: "string \<Rightarrow> string option \<Rightarrow> MessageContentBlock list" where
  "specifiedReasoningBlocks i None = []"
| "specifiedReasoningBlocks i (Some e) = (if e = [] then [] else [Thinking e i])"

definition readAsReasoning :: "ToolCallType \<Rightarrow> bool" where
  "readAsReasoning ty = (ty \<in> {file_search_call, web_search_call, computer_call})"

fun specifiedItemBlocks :: "JSON \<Rightarrow> ResponseItem \<Rightarrow> js_error + MessageContentBlock list" where
  "specifiedItemBlocks J (MessageItem r c) = Inr (concat (map specifiedPartBlocks c))"
| "specifiedItemBlocks J (FunctionCall call_id n arguments) =
     (case parse J arguments of
        Inl msg \<Rightarrow> Inl (SyntaxError msg)
      | Inr v \<Rightarrow> Inr [ToolUse call_id n v])"
| "specifiedItemBlocks J (ReasoningItem i e) = Inr (specifiedReasoningBlocks i e)"
| "specifiedItemBlocks J (ToolCallItem ty i e) =
     (if readAsReasoning ty then Inr (specifiedReasoningBlocks i e)
      else Inr [Text (stringify_item J (ToolCallItem ty i e))])"
| "specifiedItemBlocks J item = Inr [Text (stringify_item J item)]"

text \<open>The conversions of a list in order: the first error, or all blocks.\<close>

fun collect :: "('e + 'a list) list \<Rightarrow> 'e + 'a list" where
  "collect [] = Inr []"
| "collect (Inl e # rs) = Inl e"
| "collect (Inr xs # rs) = (case collect rs of Inl e \<Rightarrow> Inl e | Inr ys \<Rightarrow> Inr (xs @ ys))"

text \<open>
  A count as the provider reports it, \<open>0\<close> for a count (or a whole usage object) that it
  does not report.
\<close>

fun reported :: "'u option \<Rightarrow> ('u \<Rightarrow> int option) \<Rightarrow> int" where
  "reported None field = 0"
| "reported (Some u) field = (case field u of None \<Rightarrow> 0 | Some n \<Rightarrow> n)"

text \<open>The tool calls of a completion: those of the message of its first choice.\<close>

definition completionToolCalls :: "ChatCompletion \<Rightarrow> ChatToolCall list" where
  "completionToolCalls completion =
     (case choices completion of
        Some (c # cs) \<Rightarrow>
          (case choice_message c of
             Some m \<Rightarrow> (case tool_calls m of Some tcs \<Rightarrow> tcs | None \<Rightarrow> [])
           | None \<Rightarrow> [])
      | _ \<Rightarrow> [])"

text \<open>A string that \<^verbatim>\<open>||\<close> passes over: absent or empty.\<close>

definition absent :: "string option \<Rightarrow> bool" where
  "absent s = (s = None \<or> s = Some [])"

text \<open>Which calls of the client went to which endpoint.\<close>

fun isPrimaryCall :: "ClientCall \<Rightarrow> bool" where
  "isPrimaryCall (ResponsesCreate request signal) = True"
| "isPrimaryCall (ChatCompletionsCreate request signal) = False"

fun isFallbackCall :: "ClientCall \<Rightarrow> bool" where
  "isFallbackCall (ResponsesCreate request signal) = False"
| "isFallbackCall (ChatCompletionsCreate request signal) = True"

text \<open>The content of a completion: that of the message of its first choice.\<close>

definition completionContent :: "ChatCompletion \<Rightarrow> ChatMessageContent option" where
  "completionContent completion =
     (case choices completion of
        Some (c # cs) \<Rightarrow> (case choice_message c of Some m \<Rightarrow> msg_content m | None \<Rightarrow> None)
      | _ \<Rightarrow> None)"

section \<open>Scenarios\<close>

text \<open>
  Concrete services, providers and conversations on which the statements below are run:
  a service that talks to the provider directly and one configured for OpenRouter, a
  provider without the Responses endpoint, one that answers on it, one whose answer holds
  a function call with malformed arguments, one whose calls are cancelled, and one whose
  answer depends on the model asked for.
\<close>

definition exampleImports :: Imports where
  "exampleImports =
     \<lparr>process_env = (\<lambda>k. None),
      openaiTools =
        [\<lparr>tool_name = ''computer_click_mouse'', tool_description = ''Click the mouse'',
          tool_parameters = JObject [(''type'', JString ''object'')]\<rparr>],
      computerToolName = (\<lambda>n. case n of None \<Rightarrow> False | Some s \<Rightarrow> prefix ''computer_'' s)\<rparr>"

definition directService :: OpenAIService where
  "directService = OpenAIService_constructor (map_of [(''OPENAI_API_KEY'', ''sk-test'')])"

definition openrouterService :: OpenAIService where
  "openrouterService =
     OpenAIService_constructor
       (map_of [(''OPENAI_API_KEY'', ''sk-or-test''),
                (''OPENAI_BASE_URL'', ''https://openrouter.ai/api/v1'')])"

definition notFound :: js_error where
  "notFound =
     \<lparr>instanceof_APIUserAbortError = False, status = Some 404,
      message = Some ''404 page not found''\<rparr>"


definition exampleCompletion :: ChatCompletion where
  "exampleCompletion =
     \<lparr>choices =
        Some [\<lparr>choice_message =
                 Some \<lparr>msg_content = Some (ContentString ''Clicking.''),
                       tool_calls =
                         Some [\<lparr>tc_id = Some ''call_1'',
                                 tc_function =
                                   Some \<lparr>fn_name = Some ''computer_click_mouse'',
                                         fn_arguments = Some ''{\"x\":1}''\<rparr>\<rparr>,
                               \<lparr>tc_id = None,
                                 tc_function =
                                   Some \<lparr>fn_name = Some ''computer_type_text'',
                                         fn_arguments = Some ''{bad''\<rparr>\<rparr>,
                               \<lparr>tc_id = None, tc_function = None\<rparr>]\<rparr>\<rparr>],
      chat_usage =
        Some \<lparr>prompt_tokens = Some 12, completion_tokens = Some 7,
              chat_total_tokens = None\<rparr>\<rparr>"

definition exampleResponse :: Response where
  "exampleResponse =
     \<lparr>response_output =
        [ReasoningItem ''rs_1'' (Some ''gAAAA''),
         MessageItem ''assistant'' [OutputText ''Hello'', OutputRefusal ''not that''],
         FunctionCall ''call_1'' (Some ''computer_click_mouse'') ''{\"x\":1}'',
         ToolCallItem web_search_call ''ws_1'' None,
         ToolCallItem mcp_call ''mcp_1'' None],
      usage =
        Some \<lparr>input_tokens = Some 10, output_tokens = None, total_tokens = Some 15\<rparr>\<rparr>"

definition malformedResponse :: Response where
  "malformedResponse =
     \<lparr>response_output = [FunctionCall ''call_1'' (Some ''computer_click_mouse'') ''{bad''],
      usage = None\<rparr>"

definition chatOnlyProvider :: Provider where
  "chatOnlyProvider =
     \<lparr>responses_create = (\<lambda>client request signal. Inl notFound),
      chat_completions_create = (\<lambda>client request signal. Inr exampleCompletion)\<rparr>"

definition respondingProvider :: Provider where
  "respondingProvider =
     \<lparr>responses_create = (\<lambda>client request signal. Inr exampleResponse),
      chat_completions_create = (\<lambda>client request signal. Inl notFound)\<rparr>"

definition malformedProvider :: Provider where
  "malformedProvider =
     \<lparr>responses_create = (\<lambda>client request signal. Inr malformedResponse),
      chat_completions_create = (\<lambda>client request signal. Inr exampleCompletion)\<rparr>"


definition modelBoundProvider :: Provider where
  "modelBoundProvider =
     \<lparr>responses_create =
        (\<lambda>client request signal.
           if req_model request = ''o3-2025-04-16'' then Inl notFound else Inr exampleResponse),
      chat_completions_create =
        (\<lambda>client request signal.
           if chat_model request = ''o3-2025-04-16'' then Inr exampleCompletion
           else Inl notFound)\<rparr>"

text \<open>
  A service whose base URL is configured under \<^verbatim>\<open>OPENAI_API_HOST\<close>, a provider that
  refuses the Responses call with status 403 and answers the Chat Completions call, a
  transport that answers every request with status 503, and one that limits the rate of the
  first request only.
\<close>

definition hostService :: OpenAIService where
  "hostService =
     OpenAIService_constructor
       (map_of [(''OPENAI_API_KEY'', ''sk-or-test''),
                (''OPENAI_API_HOST'', ''https://openrouter.ai/api/v1'')])"

definition forbidden :: js_error where
  "forbidden =
     \<lparr>instanceof_APIUserAbortError = False, status = Some 403,
      message = Some ''403 Forbidden''\<rparr>"

definition forbiddenProvider :: Provider where
  "forbiddenProvider =
     \<lparr>responses_create = (\<lambda>client request signal. Inl forbidden),
      chat_completions_create = (\<lambda>client request signal. Inr exampleCompletion)\<rparr>"

definition unavailable503 :: js_error where
  "unavailable503 =
     \<lparr>instanceof_APIUserAbortError = False, status = Some 503,
      message = Some ''503 Service Unavailable''\<rparr>"

definition rateLimited :: js_error where
  "rateLimited =
     \<lparr>instanceof_APIUserAbortError = False, status = Some 429,
      message = Some ''429 Too Many Requests''\<rparr>"

definition overloadedTransport :: Transport where
  "overloadedTransport =
     \<lparr>post_responses = (\<lambda>client request signal k. Inl unavailable503),
      post_chat_completions = (\<lambda>client request signal k. Inl unavailable503)\<rparr>"

definition rateLimitedTransport :: Transport where
  "rateLimitedTransport =
     \<lparr>post_responses =
        (\<lambda>client request signal k. if k = 0 then Inl rateLimited else Inr exampleResponse),
      post_chat_completions = (\<lambda>client request signal k. Inl notFound)\<rparr>"

definition exampleMessages :: "Message list" where
  "exampleMessages =
     [\<lparr>role = USER, content = [Text ''Open the browser'']\<rparr>,
      \<lparr>role = ASSISTANT,
       content =
         [Thinking ''gAAAA'' ''rs_1'', Text ''Clicking.'',
          ToolUse ''call_1'' (Some ''computer_click_mouse'') (JObject [(''x'', JNumber 1)])]\<rparr>,
      \<lparr>role = USER,
       content =
         [ToolResult ''call_1'' [Text ''clicked'', Image ''image/png'' ''iVBOR'']]\<rparr>,
      \<lparr>role = USER,
       content =
         [UserAction
            [ToolUse ''u1'' (Some ''computer_type_text'') (JObject []),
             Image ''image/png'' ''AAAA'',
             Text ''dropped'']]\<rparr>]"

section \<open>The loops as lists\<close>

text \<open>
  A loop that only pushes onto its array appends, for each element in turn, what the
  body pushes for it.
\<close>

lemma fold_push:
  assumes "\<And>x acc. f x acc = acc @ g x"
  shows "fold f xs acc = acc @ concat (map g xs)"
  using assms by (induction xs arbitrary: acc) simp_all

lemma pushToolResultContent_items:
  "pushToolResultContent tool_use_id c acc = acc @ specifiedResultPartItems tool_use_id c"
  by (cases c) (simp_all add: imageMessage_def)

lemma pushBlock_items: "pushBlock J r b acc = acc @ specifiedBlockItems J r b"
proof (cases b)
  case (ToolResult tid c)
  have "fold (pushToolResultContent tid) c acc =
          acc @ concat (map (specifiedResultPartItems tid) c)"
    by (rule fold_push) (rule pushToolResultContent_items)
  with ToolResult show ?thesis
    by (cases r) simp_all
qed (cases r; simp)+

lemma pushUserAction_items:
  "pushUserAction J ct b acc = acc @ pushUserAction J ct b []"
  by (cases b) simp_all

lemma pushMessage_items:
  "pushMessage J ct m acc =
     acc @ (if list_all isUserActionContentBlock (content m)
            then fold (pushUserAction J ct) (concat (map userActionContent (content m))) []
            else concat (map (specifiedBlockItems J (role m)) (content m)))"
proof -
  have ua: "fold (pushUserAction J ct) xs a =
              a @ concat (map (\<lambda>b. pushUserAction J ct b []) xs)" for xs a
    by (rule fold_push) (rule pushUserAction_items)
  have bl: "fold (pushBlock J r) xs a =
              a @ concat (map (specifiedBlockItems J r) xs)" for xs a r
    by (rule fold_push) (rule pushBlock_items)
  show ?thesis
    by (simp add: ua [of _ acc] ua [of _ "[]"] bl del: pushUserAction.simps)
qed

lemma formatMessagesForOpenAI_concat:
  "formatMessagesForOpenAI J ct messages =
     concat (map (\<lambda>m. if list_all isUserActionContentBlock (content m)
                       then fold (pushUserAction J ct)
                              (concat (map userActionContent (content m))) []
                       else concat (map (specifiedBlockItems J (role m)) (content m)))
               messages)"
  unfolding formatMessagesForOpenAI_def
  by (subst fold_push [where g = "\<lambda>m. if list_all isUserActionContentBlock (content m)
                       then fold (pushUserAction J ct)
                              (concat (map userActionContent (content m))) []
                       else concat (map (specifiedBlockItems J (role m)) (content m))"])
     (simp_all add: pushMessage_items del: pushMessage.simps)

lemma block_items_in_output:
  assumes "m \<in> set messages" and "b \<in> set (content m)"
    and "\<not> isUserActionContentBlock b"
    and "item \<in> set (specifiedBlockItems J (role m) b)"
  shows "item \<in> set (formatMessagesForOpenAI J ct messages)"
proof -
  from assms(2,3) have "\<not> list_all isUserActionContentBlock (content m)"
    by (auto simp add: list_all_iff)
  with assms show ?thesis
    unfolding formatMessagesForOpenAI_concat by auto
qed

lemma pushReasoning_blocks: "pushReasoning i e acc = acc @ specifiedReasoningBlocks i e"
  by (cases e) simp_all

lemma pushOutputContent_blocks: "pushOutputContent c acc = acc @ specifiedPartBlocks c"
  by (cases c) simp_all

lemma pushOutputItem_blocks:
  "pushOutputItem J item acc =
     (case specifiedItemBlocks J item of Inl e \<Rightarrow> Inl e | Inr bs \<Rightarrow> Inr (acc @ bs))"
proof (cases item)
  case (MessageItem r c)
  have "fold pushOutputContent c acc = acc @ concat (map specifiedPartBlocks c)"
    by (rule fold_push) (rule pushOutputContent_blocks)
  with MessageItem show ?thesis by simp
next
  case (FunctionCall call_id n arguments)
  then show ?thesis by (simp split: sum.splits)
next
  case (ToolCallItem ty i e)
  then show ?thesis
    by (cases ty) (simp_all add: pushReasoning_blocks readAsReasoning_def)
qed (simp_all add: pushReasoning_blocks)

lemma formatOpenAIResponse_loop_collect:
  "formatOpenAIResponse_loop J response acc =
     (case collect (map (specifiedItemBlocks J) response) of
        Inl e \<Rightarrow> Inl e
      | Inr bs \<Rightarrow> Inr (acc @ bs))"
proof (induction response arbitrary: acc)
  case Nil
  show ?case by simp
next
  case (Cons item rest)
  show ?case
    by (cases "specifiedItemBlocks J item")
       (simp_all add: pushOutputItem_blocks Cons.IH split: sum.splits)
qed

lemma formatOpenAIResponse_collect:
  "formatOpenAIResponse J response = collect (map (specifiedItemBlocks J) response)"
  by (simp add: formatOpenAIResponse_def formatOpenAIResponse_loop_collect split: sum.splits)

lemma collect_append:
  "collect (xs @ ys) =
     (case collect xs of
        Inl e \<Rightarrow> Inl e
      | Inr as \<Rightarrow> (case collect ys of Inl e \<Rightarrow> Inl e | Inr bs \<Rightarrow> Inr (as @ bs)))"
proof (induction xs)
  case Nil
  show ?case by (simp split: sum.splits)
next
  case (Cons x xs)
  then show ?case by (cases x) (simp_all split: sum.splits)
qed

text \<open>The JSON instance on the texts of the scenarios.\<close>

lemma stringify_example:
  "stringify compactJSON (JObject [(''x'', JNumber 1)]) = ''{\"x\":1}''"
  by code_simp

lemma stringify_indent_example: "stringify_indent compactJSON (JObject []) = ''{}''"
  by code_simp

lemma parse_example: "parse compactJSON ''{\"x\":1}'' = Inr (JObject [(''x'', JNumber 1)])"
  by code_simp

lemma parse_malformed: "parse compactJSON ''{bad'' = Inl ''Unexpected token in JSON''"
  by code_simp

lemma stringify_item_example:
  "stringify_item compactJSON (ToolCallItem mcp_call ''mcp_1'' None) =
     ''{\"type\":\"mcp_call\",\"id\":\"mcp_1\"}''"
  by code_simp

section \<open>The request conversion\<close>

text \<open>
  Claim C1. For every list of messages, \<^verbatim>\<open>formatMessagesForOpenAI\<close> returns, message by
  message and block by block in order, the items of the specification: a text block
  becomes a \<^verbatim>\<open>message\<close> item with role \<^verbatim>\<open>user\<close> and an \<^verbatim>\<open>input_text\<close> part in a
  message of role USER, with role \<^verbatim>\<open>assistant\<close> and an \<^verbatim>\<open>output_text\<close> part otherwise; a
  tool use block of an assistant message becomes a \<^verbatim>\<open>function_call\<close> item with the
  block's id as \<^verbatim>\<open>call_id\<close>, its name and its serialized input; a thinking block becomes
  a \<^verbatim>\<open>reasoning\<close> item with the signature as id and the thinking as encrypted content; a
  text part of a tool result becomes a \<^verbatim>\<open>function_call_output\<close> item under the block's
  \<^verbatim>\<open>tool_use_id\<close>, an image part a \<^verbatim>\<open>function_call_output\<close> item with output
  \<^verbatim>\<open>screenshot\<close> followed by a user message with the image as a data URL. A message
  made of user actions only has none of these blocks at its top level and goes through
  its own loop.
\<close>

theorem formatMessagesForOpenAI_blocks:
  "formatMessagesForOpenAI J ct messages =
     concat (map (\<lambda>m. if list_all isUserActionContentBlock (content m)
                       then fold (pushUserAction J ct)
                              (concat (map userActionContent (content m))) []
                       else concat (map (specifiedBlockItems J (role m)) (content m)))
               messages)"
  by (rule formatMessagesForOpenAI_concat)

theorem formatMessagesForOpenAI_blocks_witness:
  "formatMessagesForOpenAI compactJSON (computerToolName exampleImports) exampleMessages =
     [MessageItem ''user'' [InputText ''Open the browser''],
      ReasoningItem ''rs_1'' (Some ''gAAAA''),
      MessageItem ''assistant'' [OutputText ''Clicking.''],
      FunctionCall ''call_1'' (Some ''computer_click_mouse'') ''{\"x\":1}'',
      FunctionCallOutput ''call_1'' ''clicked'',
      FunctionCallOutput ''call_1'' ''screenshot'',
      MessageItem ''user'' [InputImage ''high'' ''data:image/png;base64,iVBOR''],
      MessageItem ''user''
        [InputText (''User performed action: computer_type_text'' @ [CHR 0x0A] @ ''{}'')],
      MessageItem ''user'' [InputImage ''high'' ''data:image/png;base64,AAAA'']]"
  using formatMessagesForOpenAI_blocks
          [of compactJSON "computerToolName exampleImports" exampleMessages]
  by (simp add: exampleMessages_def exampleImports_def stringify_example
        stringify_indent_example imageMessage_def)

section \<open>The response conversion\<close>

text \<open>
  Claim C2. For every output list, \<^verbatim>\<open>formatOpenAIResponse\<close> returns, item by item in
  order, the blocks of the specification: for a \<^verbatim>\<open>message\<close> item a text block for each
  part with a \<^verbatim>\<open>text\<close> field and a text block \<^verbatim>\<open>Refusal: ...\<close> for each part with a
  \<^verbatim>\<open>refusal\<close> field; for a \<^verbatim>\<open>function_call\<close> item a tool use block with the item's
  \<^verbatim>\<open>call_id\<close> as id, its name, and its parsed arguments as input; for a \<^verbatim>\<open>reasoning\<close>
  item with non-empty encrypted content a thinking block with that content and the
  item's id as signature; for an item of unknown type a text block with the serialized
  item. Where the arguments of a function call do not parse there is no value to
  return: the conversion throws the \<^verbatim>\<open>SyntaxError\<close> of the first such item.
\<close>

theorem formatOpenAIResponse_blocks:
  "formatOpenAIResponse J response = collect (map (specifiedItemBlocks J) response)"
  by (rule formatOpenAIResponse_collect)

theorem formatOpenAIResponse_blocks_witness:
  "formatOpenAIResponse compactJSON (response_output exampleResponse) =
     Inr [Thinking ''gAAAA'' ''rs_1'', Text ''Hello'', Text ''Refusal: not that'',
          ToolUse ''call_1'' (Some ''computer_click_mouse'') (JObject [(''x'', JNumber 1)]),
          Text ''{\"type\":\"mcp_call\",\"id\":\"mcp_1\"}'']"
  using formatOpenAIResponse_blocks [of compactJSON "response_output exampleResponse"]
  by (simp add: exampleResponse_def parse_example stringify_item_example readAsReasoning_def)

section \<open>Tool call items and the round trip\<close>

text \<open>
  Claim C10. An output item of type \<^verbatim>\<open>file_search_call\<close>, \<^verbatim>\<open>web_search_call\<close> or
  \<^verbatim>\<open>computer_call\<close> is converted exactly as a \<^verbatim>\<open>reasoning\<close> item with the same id and
  encrypted content would be, wherever it stands in the output: it yields no block
  unless it carries a non-empty \<^verbatim>\<open>encrypted_content\<close>, then a thinking block, and never
  a text block. An item of type \<^verbatim>\<open>image_generation_call\<close> or of one of the other
  unsupported tool call types always yields one text block with the serialized item.
\<close>

theorem tool_call_items_read_as_reasoning:
  "(ty \<in> {file_search_call, web_search_call, computer_call} \<longrightarrow>
      formatOpenAIResponse J (before @ ToolCallItem ty i e # after) =
        formatOpenAIResponse J (before @ ReasoningItem i e # after)
      \<and> formatOpenAIResponse J [ToolCallItem ty i e] =
          Inr (case e of None \<Rightarrow> [] | Some c \<Rightarrow> if c = [] then [] else [Thinking c i])
      \<and> (\<forall>blocks. formatOpenAIResponse J [ToolCallItem ty i e] = Inr blocks
             \<longrightarrow> list_all (\<lambda>b. \<not> isText b) blocks))
   \<and> (ty \<in> {image_generation_call, code_interpreter_call, local_shell_call, mcp_call,
              mcp_list_tools, mcp_approval_request} \<longrightarrow>
        formatOpenAIResponse J [ToolCallItem ty i e] =
          Inr [Text (stringify_item J (ToolCallItem ty i e))])"
proof (intro conjI impI)
  assume ty: "ty \<in> {file_search_call, web_search_call, computer_call}"
  then have same: "specifiedItemBlocks J (ToolCallItem ty i e) =
                     specifiedItemBlocks J (ReasoningItem i e)"
    by (simp add: readAsReasoning_def)
  show "formatOpenAIResponse J (before @ ToolCallItem ty i e # after) =
          formatOpenAIResponse J (before @ ReasoningItem i e # after)"
    unfolding formatOpenAIResponse_collect by (simp only: map_append list.map same)
  show single: "formatOpenAIResponse J [ToolCallItem ty i e] =
          Inr (case e of None \<Rightarrow> [] | Some c \<Rightarrow> if c = [] then [] else [Thinking c i])"
    using ty by (cases e) (simp_all add: formatOpenAIResponse_collect readAsReasoning_def)
  show "\<forall>blocks. formatOpenAIResponse J [ToolCallItem ty i e] = Inr blocks
           \<longrightarrow> list_all (\<lambda>b. \<not> isText b) blocks"
    unfolding single by (cases e) auto
next
  assume "ty \<in> {image_generation_call, code_interpreter_call, local_shell_call, mcp_call,
                 mcp_list_tools, mcp_approval_request}"
  then show "formatOpenAIResponse J [ToolCallItem ty i e] =
               Inr [Text (stringify_item J (ToolCallItem ty i e))]"
    by (auto simp add: formatOpenAIResponse_collect readAsReasoning_def)
qed

theorem tool_call_items_read_as_reasoning_witness:
  "formatOpenAIResponse compactJSON [ToolCallItem web_search_call ''ws_1'' (Some ''gAAAA'')] =
     Inr [Thinking ''gAAAA'' ''ws_1'']
   \<and> formatOpenAIResponse compactJSON [ToolCallItem computer_call ''cu_1'' None] = Inr []
   \<and> formatOpenAIResponse compactJSON [ToolCallItem mcp_call ''mcp_1'' None] =
       Inr [Text ''{\"type\":\"mcp_call\",\"id\":\"mcp_1\"}'']"
  using tool_call_items_read_as_reasoning
          [of web_search_call compactJSON "[]" "''ws_1''" "Some ''gAAAA''" "[]"]
        tool_call_items_read_as_reasoning
          [of computer_call compactJSON "[]" "''cu_1''" None "[]"]
        tool_call_items_read_as_reasoning
          [of mcp_call compactJSON "[]" "''mcp_1''" None "[]"]
  by (simp add: stringify_item_example formatOpenAIResponse_def)

text \<open>
  Claim C8. A tool use block of an assistant message, anywhere in a conversation, is
  converted by \<^verbatim>\<open>formatMessagesForOpenAI\<close> to a \<^verbatim>\<open>function_call\<close> item, and
  \<^verbatim>\<open>formatOpenAIResponse\<close> converts that item back to a tool use block with the same id
  and name and with the input sent through \<^verbatim>\<open>JSON.stringify\<close> and \<^verbatim>\<open>JSON.parse\<close>, hence
  the same input wherever these two are inverse on it. A thinking block is converted to
  a \<^verbatim>\<open>reasoning\<close> item, and if its thinking is not empty that item is converted back to
  a thinking block with the same thinking and signature.
\<close>

theorem tool_use_and_thinking_round_trip:
  "(m \<in> set messages \<and> role m = ASSISTANT \<and> ToolUse i n inp \<in> set (content m)
      \<longrightarrow> FunctionCall i n (stringify J inp) \<in> set (formatMessagesForOpenAI J ct messages))
   \<and> formatOpenAIResponse J [FunctionCall i n (stringify J inp)] =
       (case parse J (stringify J inp) of
          Inl msg \<Rightarrow> Inl (SyntaxError msg)
        | Inr v \<Rightarrow> Inr [ToolUse i n v])
   \<and> formatOpenAIResponse J
       (formatMessagesForOpenAI J ct [\<lparr>role = ASSISTANT, content = [ToolUse i n inp]\<rparr>]) =
       (case parse J (stringify J inp) of
          Inl msg \<Rightarrow> Inl (SyntaxError msg)
        | Inr v \<Rightarrow> Inr [ToolUse i n v])
   \<and> (parse J (stringify J inp) = Inr inp \<longrightarrow>
        formatOpenAIResponse J
          (formatMessagesForOpenAI J ct [\<lparr>role = ASSISTANT, content = [ToolUse i n inp]\<rparr>]) =
          Inr [ToolUse i n inp])
   \<and> (m \<in> set messages \<and> Thinking thinking sg \<in> set (content m)
        \<longrightarrow> ReasoningItem sg (Some thinking) \<in> set (formatMessagesForOpenAI J ct messages))
   \<and> (thinking \<noteq> [] \<longrightarrow>
        formatOpenAIResponse J [ReasoningItem sg (Some thinking)] = Inr [Thinking thinking sg]
        \<and> formatOpenAIResponse J
            (formatMessagesForOpenAI J ct [\<lparr>role = r, content = [Thinking thinking sg]\<rparr>]) =
            Inr [Thinking thinking sg])"
proof (intro conjI impI)
  assume "m \<in> set messages \<and> role m = ASSISTANT \<and> ToolUse i n inp \<in> set (content m)"
  then show "FunctionCall i n (stringify J inp) \<in> set (formatMessagesForOpenAI J ct messages)"
    by (intro block_items_in_output [where m = m and b = "ToolUse i n inp"]) simp_all
next
  assume "m \<in> set messages \<and> Thinking thinking sg \<in> set (content m)"
  then show "ReasoningItem sg (Some thinking) \<in> set (formatMessagesForOpenAI J ct messages)"
    by (intro block_items_in_output [where m = m and b = "Thinking thinking sg"]) simp_all
qed (simp_all add: formatMessagesForOpenAI_concat formatOpenAIResponse_collect
       split: sum.splits)

theorem tool_use_and_thinking_round_trip_witness:
  "\<lparr>role = ASSISTANT,
    content =
      [Thinking ''gAAAA'' ''rs_1'', Text ''Clicking.'',
       ToolUse ''call_1'' (Some ''computer_click_mouse'') (JObject [(''x'', JNumber 1)])]\<rparr>
     \<in> set exampleMessages
   \<and> parse compactJSON (stringify compactJSON (JObject [(''x'', JNumber 1)])) =
       Inr (JObject [(''x'', JNumber 1)])
   \<and> FunctionCall ''call_1'' (Some ''computer_click_mouse'') ''{\"x\":1}''
       \<in> set (formatMessagesForOpenAI compactJSON (computerToolName exampleImports)
                 exampleMessages)
   \<and> ReasoningItem ''rs_1'' (Some ''gAAAA'')
       \<in> set (formatMessagesForOpenAI compactJSON (computerToolName exampleImports)
                 exampleMessages)
   \<and> formatOpenAIResponse compactJSON
       (formatMessagesForOpenAI compactJSON (computerToolName exampleImports)
          [\<lparr>role = ASSISTANT,
            content = [ToolUse ''call_1'' (Some ''computer_click_mouse'')
                         (JObject [(''x'', JNumber 1)])]\<rparr>]) =
       Inr [ToolUse ''call_1'' (Some ''computer_click_mouse'') (JObject [(''x'', JNumber 1)])]
   \<and> formatOpenAIResponse compactJSON
       (formatMessagesForOpenAI compactJSON (computerToolName exampleImports)
          [\<lparr>role = ASSISTANT, content = [Thinking ''gAAAA'' ''rs_1'']\<rparr>]) =
       Inr [Thinking ''gAAAA'' ''rs_1'']"
proof -
  have member:
    "\<lparr>role = ASSISTANT,
      content =
        [Thinking ''gAAAA'' ''rs_1'', Text ''Clicking.'',
         ToolUse ''call_1'' (Some ''computer_click_mouse'') (JObject [(''x'', JNumber 1)])]\<rparr>
       \<in> set exampleMessages"
    by (simp add: exampleMessages_def)
  from tool_use_and_thinking_round_trip
         [where m = "\<lparr>role = ASSISTANT,
                       content =
                         [Thinking ''gAAAA'' ''rs_1'', Text ''Clicking.'',
                          ToolUse ''call_1'' (Some ''computer_click_mouse'')
                            (JObject [(''x'', JNumber 1)])]\<rparr>"
            and messages = exampleMessages
            and i = "''call_1''" and n = "Some ''computer_click_mouse''"
            and inp = "JObject [(''x'', JNumber 1)]" and J = compactJSON
            and ct = "computerToolName exampleImports"
            and thinking = "''gAAAA''" and sg = "''rs_1''" and r = ASSISTANT]
       member
  show ?thesis
    by (simp add: stringify_example parse_example)
qed

section \<open>The paths of generateMessage\<close>

text \<open>
  The fallback's loop over the tool calls as a list, and the three ways an invocation
  can go: the primary attempt returns; it throws and the fallback is not tried; it throws
  and the fallback is tried once.
\<close>

lemma fold_pushToolCall:
  "fold (pushToolCall J) tcs blocks = blocks @ map (toolCallBlock J) tcs"
  by (induction tcs arbitrary: blocks) (simp_all add: pushToolCall_def)

lemma truthy_finalText: "finalText c \<noteq> [] \<Longrightarrow> truthy_content c"
  by (cases c) simp_all

lemma chatContentBlocks_shape:
  "chatContentBlocks J completion =
     (case completionContent completion of
        None \<Rightarrow> []
      | Some c \<Rightarrow> if finalText c = [] then [] else [Text (finalText c)])
     @ map (toolCallBlock J) (completionToolCalls completion)"
  by (auto simp add: chatContentBlocks_def completionContent_def completionToolCalls_def
        fold_pushToolCall truthy_finalText
      split: option.splits list.splits)

lemma generateMessage_primary:
  assumes "primaryAttempt J P this
             (responsesRequest J I systemPrompt messages (modelOrDefault I model)
                (useToolsOrDefault useTools)) signal = Inr response"
  shows "generateMessage J I P this systemPrompt messages model useTools signal =
           \<lparr>outcome = Inr response, service = this,
            calls = [ResponsesCreate
                       (responsesRequest J I systemPrompt messages (modelOrDefault I model)
                          (useToolsOrDefault useTools)) signal]\<rparr>"
  using assms by (simp add: generateMessage_def Let_def)

lemma generateMessage_no_fallback:
  assumes "primaryAttempt J P this
             (responsesRequest J I systemPrompt messages (modelOrDefault I model)
                (useToolsOrDefault useTools)) signal = Inl error"
    and "\<not> likelyNeedsChatAPI this error"
  shows "generateMessage J I P this systemPrompt messages model useTools signal =
           \<lparr>outcome = Inl (rethrow error), service = this,
            calls = [ResponsesCreate
                       (responsesRequest J I systemPrompt messages (modelOrDefault I model)
                          (useToolsOrDefault useTools)) signal]\<rparr>"
  using assms by (simp add: generateMessage_def Let_def)

lemma generateMessage_fallback:
  assumes "primaryAttempt J P this
             (responsesRequest J I systemPrompt messages (modelOrDefault I model)
                (useToolsOrDefault useTools)) signal = Inl error"
    and "likelyNeedsChatAPI this error"
  shows "generateMessage J I P this systemPrompt messages model useTools signal =
           \<lparr>outcome =
              (case chat_completions_create P (openai this)
                      (chatRequest I systemPrompt messages (modelOrDefault I model)
                         (useToolsOrDefault useTools)) signal of
                 Inl fallbackErr \<Rightarrow> Inl (rethrow error)
               | Inr completion \<Rightarrow> Inr (chatResponse J completion)),
            service = this,
            calls = [ResponsesCreate
                       (responsesRequest J I systemPrompt messages (modelOrDefault I model)
                          (useToolsOrDefault useTools)) signal,
                     ChatCompletionsCreate
                       (chatRequest I systemPrompt messages (modelOrDefault I model)
                          (useToolsOrDefault useTools)) signal]\<rparr>"
  using assms by (simp add: generateMessage_def Let_def split: sum.splits)

lemma primaryAttempt_call_fails:
  "responses_create P (openai this) request signal = Inl error
     \<Longrightarrow> primaryAttempt J P this request signal = Inl error"
  by (simp add: primaryAttempt_def)

text \<open>
  The calls of an invocation: the one on the Responses endpoint, then at most the one on
  the Chat Completions endpoint. Below them, a call of the library's client sends at
  least one request and at most one more than its retries.
\<close>

lemma calls_cases:
  "calls (generateMessage J I P this systemPrompt messages model useTools signal) =
     [ResponsesCreate
        (responsesRequest J I systemPrompt messages (modelOrDefault I model)
           (useToolsOrDefault useTools)) signal]
   \<or> calls (generateMessage J I P this systemPrompt messages model useTools signal) =
       [ResponsesCreate
          (responsesRequest J I systemPrompt messages (modelOrDefault I model)
             (useToolsOrDefault useTools)) signal,
        ChatCompletionsCreate
          (chatRequest I systemPrompt messages (modelOrDefault I model)
             (useToolsOrDefault useTools)) signal]"
proof (cases "primaryAttempt J P this
                (responsesRequest J I systemPrompt messages (modelOrDefault I model)
                   (useToolsOrDefault useTools)) signal")
  case (Inr response)
  show ?thesis by (simp add: generateMessage_primary [OF Inr])
next
  case (Inl error)
  show ?thesis
  proof (cases "likelyNeedsChatAPI this error")
    case True
    show ?thesis by (simp add: generateMessage_fallback [OF Inl True])
  next
    case False
    show ?thesis by (simp add: generateMessage_no_fallback [OF Inl False])
  qed
qed

lemma makeRequest_sent:
  "Suc sent \<le> snd (makeRequest retried post retriesRemaining sent)
   \<and> snd (makeRequest retried post retriesRemaining sent) \<le> sent + retriesRemaining + 1"
proof (induction retriesRemaining arbitrary: sent)
  case 0
  show ?case by simp
next
  case (Suc r)
  from Suc [of "Suc sent"] show ?case
    by (cases "post sent") auto
qed

lemma requestsSent_bounds:
  "1 \<le> requestsSent L T client c \<and> requestsSent L T client c \<le> defaultMaxRetries L + 1"
proof (cases c)
  case (ResponsesCreate request signal)
  with makeRequest_sent
         [of 0 "shouldRetry L" "post_responses T client request signal" "defaultMaxRetries L"]
  show ?thesis by simp
next
  case (ChatCompletionsCreate request signal)
  with makeRequest_sent
         [of 0 "shouldRetry L" "post_chat_completions T client request signal"
             "defaultMaxRetries L"]
  show ?thesis by simp
qed

lemma makeRequest_overloaded:
  "makeRequest (shouldRetry openaiLibrary) (\<lambda>k. Inl unavailable503)
     (defaultMaxRetries openaiLibrary) 0 = (Inl unavailable503, 3)"
  by (simp add: openaiLibrary_def unavailable503_def numeral_2_eq_2)

text \<open>
  The fallback condition on the services of the scenarios. The constructor also accepts
  \<^verbatim>\<open>OPENAI_API_HOST\<close> for the base URL of the client; the condition does not read it.
\<close>

lemma api_host_not_consulted:
  "baseURL (openai (OpenAIService_constructor
                      (map_of [(''OPENAI_API_HOST'', ''https://openrouter.ai/api/v1'')]))) =
     Some ''https://openrouter.ai/api/v1''
   \<and> likelyNeedsChatAPI
         (OpenAIService_constructor
            (map_of [(''OPENAI_API_HOST'', ''https://openrouter.ai/api/v1'')])) error =
       (status error = Some 404
        \<or> (case message error of None \<Rightarrow> False | Some m \<Rightarrow> regex_test_i ''responses'' m))"
  by (simp add: likelyNeedsChatAPI_def OpenAIService_constructor_def)

lemma openrouter_likely: "likelyNeedsChatAPI openrouterService error"
  by (simp add: likelyNeedsChatAPI_def openrouterService_def OpenAIService_constructor_def)

lemma direct_likely:
  "likelyNeedsChatAPI directService error =
     (status error = Some 404
      \<or> (case message error of None \<Rightarrow> False | Some m \<Rightarrow> regex_test_i ''responses'' m))"
  by (simp add: likelyNeedsChatAPI_def directService_def OpenAIService_constructor_def)

text \<open>
  The bound of two network requests does not hold of the program. The client is built
  without \<^verbatim>\<open>maxRetries\<close>, so the library repeats a request that fails with a retried
  error: against a provider that answers every request with status 503, an invocation
  on the OpenRouter service makes its two calls and these send six requests.
\<close>

theorem more_than_two_network_requests:
  "length (calls (generateMessage compactJSON exampleImports
                    (libraryClient openaiLibrary overloadedTransport) openrouterService
                    ''Be brief.'' exampleMessages None None None)) = 2
   \<and> networkRequests openaiLibrary overloadedTransport (openai openrouterService)
       (calls (generateMessage compactJSON exampleImports
                 (libraryClient openaiLibrary overloadedTransport) openrouterService
                 ''Be brief.'' exampleMessages None None None)) = 6
   \<and> \<not> networkRequests openaiLibrary overloadedTransport (openai openrouterService)
         (calls (generateMessage compactJSON exampleImports
                   (libraryClient openaiLibrary overloadedTransport) openrouterService
                   ''Be brief.'' exampleMessages None None None)) \<le> 2"
proof -
  have "primaryAttempt compactJSON (libraryClient openaiLibrary overloadedTransport)
          openrouterService request None = Inl unavailable503" for request
    by (simp add: primaryAttempt_def libraryClient_def overloadedTransport_def
          makeRequest_overloaded)
  note run = generateMessage_fallback [OF this openrouter_likely]
  show ?thesis
    unfolding run
    by (simp add: networkRequests_def overloadedTransport_def makeRequest_overloaded)
qed

text \<open>
  Claim C5, with the requests counted where they are sent. An invocation of
  \<^verbatim>\<open>generateMessage\<close> calls the client's
  \<^verbatim>\<open>responses.create\<close> at most once and its \<^verbatim>\<open>chat.completions.create\<close> at most once, two
  calls at most, and repeats neither call itself. The requests on the network are those
  that the client library sends for these calls under its default retries: at most
  twice one more than that default (six for a default of two).
\<close>

theorem at_most_one_call_per_endpoint:
  "length (filter isPrimaryCall
             (calls (generateMessage J I P this systemPrompt messages model useTools signal)))
     \<le> 1
   \<and> length (filter isFallbackCall
               (calls (generateMessage J I P this systemPrompt messages model useTools signal)))
       \<le> 1
   \<and> length (calls (generateMessage J I P this systemPrompt messages model useTools signal))
       \<le> 2
   \<and> networkRequests L T (openai this)
       (calls (generateMessage J I (libraryClient L T) this systemPrompt messages model
                 useTools signal))
       \<le> 2 * (defaultMaxRetries L + 1)"
proof -
  have bound: "requestsSent L T (openai this) c \<le> defaultMaxRetries L + 1" for c
    using requestsSent_bounds [of L T "openai this" c] by simp
  from calls_cases [of J I P this systemPrompt messages model useTools signal]
  have counts:
    "length (filter isPrimaryCall
               (calls (generateMessage J I P this systemPrompt messages model useTools
                         signal))) \<le> 1
     \<and> length (filter isFallbackCall
                 (calls (generateMessage J I P this systemPrompt messages model useTools
                           signal))) \<le> 1
     \<and> length (calls (generateMessage J I P this systemPrompt messages model useTools
                         signal)) \<le> 2"
    by auto
  from calls_cases [of J I "libraryClient L T" this systemPrompt messages model useTools signal]
  have "networkRequests L T (openai this)
          (calls (generateMessage J I (libraryClient L T) this systemPrompt messages model
                    useTools signal))
        \<le> 2 * (defaultMaxRetries L + 1)"
  proof
    assume one: "calls (generateMessage J I (libraryClient L T) this systemPrompt messages
                          model useTools signal) =
       [ResponsesCreate
          (responsesRequest J I systemPrompt messages (modelOrDefault I model)
             (useToolsOrDefault useTools)) signal]"
    show ?thesis
      unfolding one networkRequests_def
      using bound [of "ResponsesCreate
          (responsesRequest J I systemPrompt messages (modelOrDefault I model)
             (useToolsOrDefault useTools)) signal"]
      by (simp del: requestsSent.simps)
  next
    assume two: "calls (generateMessage J I (libraryClient L T) this systemPrompt messages
                          model useTools signal) =
       [ResponsesCreate
          (responsesRequest J I systemPrompt messages (modelOrDefault I model)
             (useToolsOrDefault useTools)) signal,
        ChatCompletionsCreate
          (chatRequest I systemPrompt messages (modelOrDefault I model)
             (useToolsOrDefault useTools)) signal]"
    show ?thesis
      unfolding two networkRequests_def
      using bound [of "ResponsesCreate
          (responsesRequest J I systemPrompt messages (modelOrDefault I model)
             (useToolsOrDefault useTools)) signal"]
        bound [of "ChatCompletionsCreate
          (chatRequest I systemPrompt messages (modelOrDefault I model)
             (useToolsOrDefault useTools)) signal"]
      by (simp del: requestsSent.simps)
  qed
  with counts show ?thesis by blast
qed

lemma makeRequest_rateLimited:
  "makeRequest (shouldRetry openaiLibrary)
     (\<lambda>k. if k = 0 then Inl rateLimited else Inr exampleResponse)
     (defaultMaxRetries openaiLibrary) 0 = (Inr exampleResponse, 2)"
  by (simp add: openaiLibrary_def rateLimited_def numeral_2_eq_2)

lemma exampleResponse_converts:
  "\<exists>blocks. formatOpenAIResponse compactJSON (response_output exampleResponse) = Inr blocks"
  by (simp add: formatOpenAIResponse_collect exampleResponse_def parse_example
        readAsReasoning_def)

theorem at_most_one_call_per_endpoint_witness:
  "length (calls (generateMessage compactJSON exampleImports
                    (libraryClient openaiLibrary rateLimitedTransport) directService
                    ''Be brief.'' exampleMessages None None None)) = 1
   \<and> networkRequests openaiLibrary rateLimitedTransport (openai directService)
       (calls (generateMessage compactJSON exampleImports
                 (libraryClient openaiLibrary rateLimitedTransport) directService
                 ''Be brief.'' exampleMessages None None None)) = 2
   \<and> networkRequests openaiLibrary rateLimitedTransport (openai directService)
       (calls (generateMessage compactJSON exampleImports
                 (libraryClient openaiLibrary rateLimitedTransport) directService
                 ''Be brief.'' exampleMessages None None None))
       \<le> 2 * (defaultMaxRetries openaiLibrary + 1)"
proof -
  from exampleResponse_converts obtain blocks where
    "formatOpenAIResponse compactJSON (response_output exampleResponse) = Inr blocks" ..
  then have "\<exists>response. primaryAttempt compactJSON
          (libraryClient openaiLibrary rateLimitedTransport) directService request None =
          Inr response" for request
    by (simp add: primaryAttempt_def libraryClient_def rateLimitedTransport_def
          makeRequest_rateLimited)
  then obtain response where
    "primaryAttempt compactJSON (libraryClient openaiLibrary rateLimitedTransport)
       directService
       (responsesRequest compactJSON exampleImports ''Be brief.'' exampleMessages
          (modelOrDefault exampleImports None) (useToolsOrDefault None)) None = Inr response"
    by blast
  note run = generateMessage_primary [OF this]
  from at_most_one_call_per_endpoint
         [of compactJSON exampleImports "libraryClient openaiLibrary rateLimitedTransport"
             directService "''Be brief.''" exampleMessages None None None
             openaiLibrary rateLimitedTransport]
  show ?thesis
    unfolding run
    by (simp add: networkRequests_def rateLimitedTransport_def makeRequest_rateLimited)
qed

text \<open>
  Claim C7. An invocation of \<^verbatim>\<open>generateMessage\<close> leaves the service as it was, and a
  second invocation on the service it leaves behind, with the same arguments and a
  provider that gives the same answers to the two requests, has the same outcome.
\<close>

theorem service_unchanged_and_deterministic:
  "service (generateMessage J I P this systemPrompt messages model useTools signal) = this
   \<and> (responses_create P' (openai this)
         (responsesRequest J I systemPrompt messages (modelOrDefault I model)
            (useToolsOrDefault useTools)) signal
       = responses_create P (openai this)
           (responsesRequest J I systemPrompt messages (modelOrDefault I model)
              (useToolsOrDefault useTools)) signal
      \<and> chat_completions_create P' (openai this)
           (chatRequest I systemPrompt messages (modelOrDefault I model)
              (useToolsOrDefault useTools)) signal
         = chat_completions_create P (openai this)
             (chatRequest I systemPrompt messages (modelOrDefault I model)
                (useToolsOrDefault useTools)) signal
      \<longrightarrow> outcome (generateMessage J I P'
                     (service (generateMessage J I P this systemPrompt messages model
                                 useTools signal))
                     systemPrompt messages model useTools signal)
          = outcome (generateMessage J I P this systemPrompt messages model useTools signal))"
proof -
  have unchanged:
    "service (generateMessage J I Q this systemPrompt messages model useTools signal) = this"
    for Q
  proof (cases "primaryAttempt J Q this
                  (responsesRequest J I systemPrompt messages (modelOrDefault I model)
                     (useToolsOrDefault useTools)) signal")
    case (Inr response)
    show ?thesis by (simp add: generateMessage_primary [OF Inr])
  next
    case (Inl error)
    show ?thesis
      by (cases "likelyNeedsChatAPI this error")
         (simp_all add: generateMessage_fallback [OF Inl] generateMessage_no_fallback [OF Inl])
  qed
  have same: "outcome (generateMessage J I P' this systemPrompt messages model useTools signal)
          = outcome (generateMessage J I P this systemPrompt messages model useTools signal)"
    if primary: "responses_create P' (openai this)
         (responsesRequest J I systemPrompt messages (modelOrDefault I model)
            (useToolsOrDefault useTools)) signal
       = responses_create P (openai this)
           (responsesRequest J I systemPrompt messages (modelOrDefault I model)
              (useToolsOrDefault useTools)) signal"
      and fallback: "chat_completions_create P' (openai this)
           (chatRequest I systemPrompt messages (modelOrDefault I model)
              (useToolsOrDefault useTools)) signal
         = chat_completions_create P (openai this)
             (chatRequest I systemPrompt messages (modelOrDefault I model)
                (useToolsOrDefault useTools)) signal"
  proof -
    have attempt: "primaryAttempt J P' this
                     (responsesRequest J I systemPrompt messages (modelOrDefault I model)
                        (useToolsOrDefault useTools)) signal
                   = primaryAttempt J P this
                       (responsesRequest J I systemPrompt messages (modelOrDefault I model)
                          (useToolsOrDefault useTools)) signal"
      by (simp add: primaryAttempt_def primary)
    show ?thesis
    proof (cases "primaryAttempt J P this
                    (responsesRequest J I systemPrompt messages (modelOrDefault I model)
                       (useToolsOrDefault useTools)) signal")
      case (Inr response)
      from Inr attempt show ?thesis
        by (simp add: generateMessage_primary)
    next
      case (Inl error)
      with attempt have Inl': "primaryAttempt J P' this
                     (responsesRequest J I systemPrompt messages (modelOrDefault I model)
                        (useToolsOrDefault useTools)) signal = Inl error"
        by simp
      show ?thesis
      proof (cases "likelyNeedsChatAPI this error")
        case True
        show ?thesis
          by (simp add: generateMessage_fallback [OF Inl True]
                generateMessage_fallback [OF Inl' True] fallback)
      next
        case False
        show ?thesis
          by (simp add: generateMessage_no_fallback [OF Inl False]
                generateMessage_no_fallback [OF Inl' False])
      qed
    qed
  qed
  show ?thesis
    unfolding unchanged using same by blast
qed

theorem service_unchanged_and_deterministic_witness:
  "service (generateMessage compactJSON exampleImports chatOnlyProvider directService
              ''Be brief.'' exampleMessages None None None) = directService
   \<and> outcome (generateMessage compactJSON exampleImports modelBoundProvider
                (service (generateMessage compactJSON exampleImports chatOnlyProvider
                            directService ''Be brief.'' exampleMessages None None None))
                ''Be brief.'' exampleMessages None None None)
       = outcome (generateMessage compactJSON exampleImports chatOnlyProvider directService
                    ''Be brief.'' exampleMessages None None None)"
proof -
  have model: "modelOrDefault exampleImports None = ''o3-2025-04-16''"
    by (simp add: exampleImports_def DEFAULT_MODEL_def OPENAI_MODELS_def isOpenRouter_def)
  have primary:
    "responses_create modelBoundProvider (openai directService)
       (responsesRequest compactJSON exampleImports ''Be brief.'' exampleMessages
          (modelOrDefault exampleImports None) (useToolsOrDefault None)) None
     = responses_create chatOnlyProvider (openai directService)
         (responsesRequest compactJSON exampleImports ''Be brief.'' exampleMessages
            (modelOrDefault exampleImports None) (useToolsOrDefault None)) None"
    unfolding model
    by (simp add: modelBoundProvider_def chatOnlyProvider_def responsesRequest_def Let_def)
  have fallback:
    "chat_completions_create modelBoundProvider (openai directService)
       (chatRequest exampleImports ''Be brief.'' exampleMessages
          (modelOrDefault exampleImports None) (useToolsOrDefault None)) None
     = chat_completions_create chatOnlyProvider (openai directService)
         (chatRequest exampleImports ''Be brief.'' exampleMessages
            (modelOrDefault exampleImports None) (useToolsOrDefault None)) None"
    unfolding model
    by (simp add: modelBoundProvider_def chatOnlyProvider_def chatRequest_def Let_def)
  show ?thesis
    using service_unchanged_and_deterministic
            [of compactJSON exampleImports chatOnlyProvider directService "''Be brief.''"
                exampleMessages None None None modelBoundProvider]
          primary fallback
    by blast
qed

text \<open>
  The fallback as the \<^verbatim>\<open>catch\<close> block decides it. When the call on the Responses
  endpoint fails and the base URL that the block reads (\<^verbatim>\<open>OPENAI_API_BASE\<close> or else
  \<^verbatim>\<open>OPENAI_BASE_URL\<close>) contains \<^verbatim>\<open>openrouter.ai\<close>, or the status of the error is 404, or
  its message matches \<^verbatim>\<open>/responses/i\<close>, \<^verbatim>\<open>generateMessage\<close> calls the Chat Completions
  endpoint exactly once, after the one call on the Responses endpoint; if that call
  succeeds, its result is returned and nothing is thrown: the text content as a text
  block, then the tool calls as tool use blocks.
\<close>

theorem fallback_attempted_once:
  assumes fails:
    "responses_create P (openai this)
       (responsesRequest J I systemPrompt messages (modelOrDefault I model)
          (useToolsOrDefault useTools)) signal = Inl error"
    and unavailable:
    "string_includes
       (or_string (configService this ''OPENAI_API_BASE'')
          (or_string (configService this ''OPENAI_BASE_URL'') []))
       ''openrouter.ai''
     \<or> status error = Some 404
     \<or> (\<exists>m. message error = Some m \<and> regex_test_i ''responses'' m)"
  shows
    "calls (generateMessage J I P this systemPrompt messages model useTools signal) =
       [ResponsesCreate
          (responsesRequest J I systemPrompt messages (modelOrDefault I model)
             (useToolsOrDefault useTools)) signal,
        ChatCompletionsCreate
          (chatRequest I systemPrompt messages (modelOrDefault I model)
             (useToolsOrDefault useTools)) signal]
     \<and> (\<forall>completion.
           chat_completions_create P (openai this)
             (chatRequest I systemPrompt messages (modelOrDefault I model)
                (useToolsOrDefault useTools)) signal = Inr completion
           \<longrightarrow> outcome (generateMessage J I P this systemPrompt messages model useTools signal)
                 = Inr \<lparr>contentBlocks =
                          (case completionContent completion of
                             None \<Rightarrow> []
                           | Some c \<Rightarrow>
                               if finalText c = [] then [] else [Text (finalText c)])
                          @ map (toolCallBlock J) (completionToolCalls completion),
                        tokenUsage = tokenUsage (chatResponse J completion)\<rparr>)"
proof -
  have likely: "likelyNeedsChatAPI this error"
    using unavailable by (auto simp add: likelyNeedsChatAPI_def Let_def)
  note run = generateMessage_fallback [OF primaryAttempt_call_fails [OF fails] likely]
  show ?thesis
    by (simp add: run chatResponse_def chatContentBlocks_shape)
qed

lemma toolCallBlock_example:
  "map (toolCallBlock compactJSON) (completionToolCalls exampleCompletion) =
     [ToolUse ''call_1'' (Some ''computer_click_mouse'') (JObject [(''x'', JNumber 1)]),
      ToolUse ''computer_type_text'' (Some ''computer_type_text'') (JObject []),
      ToolUse ''tool_call'' None (JObject [])]"
  by (simp add: exampleCompletion_def completionToolCalls_def toolCallBlock_def
        functionName_def functionArguments_def parse_example parse_malformed)

theorem fallback_attempted_once_witness:
  "responses_create chatOnlyProvider (openai directService)
     (responsesRequest compactJSON exampleImports ''Be brief.'' exampleMessages
        (modelOrDefault exampleImports None) (useToolsOrDefault None)) None = Inl notFound
   \<and> status notFound = Some 404
   \<and> length (calls (generateMessage compactJSON exampleImports chatOnlyProvider directService
                      ''Be brief.'' exampleMessages None None None)) = 2
   \<and> outcome (generateMessage compactJSON exampleImports chatOnlyProvider directService
                ''Be brief.'' exampleMessages None None None)
       = Inr \<lparr>contentBlocks =
                [Text ''Clicking.'',
                 ToolUse ''call_1'' (Some ''computer_click_mouse'')
                   (JObject [(''x'', JNumber 1)]),
                 ToolUse ''computer_type_text'' (Some ''computer_type_text'') (JObject []),
                 ToolUse ''tool_call'' None (JObject [])],
              tokenUsage = \<lparr>inputTokens = 12, outputTokens = 7, totalTokens = 0\<rparr>\<rparr>"
proof -
  have fails:
    "responses_create chatOnlyProvider (openai directService)
       (responsesRequest compactJSON exampleImports ''Be brief.'' exampleMessages
          (modelOrDefault exampleImports None) (useToolsOrDefault None)) None = Inl notFound"
    by (simp add: chatOnlyProvider_def)
  have unavailable: "status notFound = Some 404"
    by (simp add: notFound_def)
  have answer:
    "chat_completions_create chatOnlyProvider (openai directService) request None =
       Inr exampleCompletion" for request
    by (simp add: chatOnlyProvider_def)
  have content: "completionContent exampleCompletion = Some (ContentString ''Clicking.'')"
    by (simp add: exampleCompletion_def completionContent_def)
  have counts:
    "tokenUsage (chatResponse compactJSON exampleCompletion) =
       \<lparr>inputTokens = 12, outputTokens = 7, totalTokens = 0\<rparr>"
    by (simp add: chatResponse_def exampleCompletion_def)
  from fallback_attempted_once [OF fails disjI2 [OF disjI1 [OF unavailable]]]
    fails unavailable
  show ?thesis
    by (simp add: answer content counts toolCallBlock_example)
qed

text \<open>
  Claim C3. The claim has the fallback attempted once whenever the Responses call fails
  and the configured base URL contains \<^verbatim>\<open>openrouter.ai\<close>. The constructor configures the
  base URL of the client from \<^verbatim>\<open>OPENAI_API_BASE\<close>, \<^verbatim>\<open>OPENAI_BASE_URL\<close> or
  \<^verbatim>\<open>OPENAI_API_HOST\<close> (lines 39 to 43); the \<^verbatim>\<open>catch\<close> block, whose comment reads
  "if using OpenRouter ... try Chat Completions", looks at the first two only (lines 97
  to 100). On a service whose base URL \<^verbatim>\<open>https://openrouter.ai/api/v1\<close> comes from
  \<^verbatim>\<open>OPENAI_API_HOST\<close>, a Responses call refused with status 403 is the only call and its
  error is thrown again; the same URL under \<^verbatim>\<open>OPENAI_BASE_URL\<close> gives the fallback call
  and its result.
\<close>

theorem api_host_base_url_not_detected:
  "baseURL (openai hostService) = Some ''https://openrouter.ai/api/v1''
   \<and> string_includes ''https://openrouter.ai/api/v1'' ''openrouter.ai''
   \<and> responses_create forbiddenProvider (openai hostService)
       (responsesRequest compactJSON exampleImports ''Be brief.'' exampleMessages
          (modelOrDefault exampleImports None) (useToolsOrDefault None)) None = Inl forbidden
   \<and> calls (generateMessage compactJSON exampleImports forbiddenProvider hostService
              ''Be brief.'' exampleMessages None None None) =
       [ResponsesCreate
          (responsesRequest compactJSON exampleImports ''Be brief.'' exampleMessages
             (modelOrDefault exampleImports None) (useToolsOrDefault None)) None]
   \<and> outcome (generateMessage compactJSON exampleImports forbiddenProvider hostService
                ''Be brief.'' exampleMessages None None None) = Inl (Rethrown forbidden)
   \<and> calls (generateMessage compactJSON exampleImports forbiddenProvider openrouterService
              ''Be brief.'' exampleMessages None None None) =
       [ResponsesCreate
          (responsesRequest compactJSON exampleImports ''Be brief.'' exampleMessages
             (modelOrDefault exampleImports None) (useToolsOrDefault None)) None,
        ChatCompletionsCreate
          (chatRequest exampleImports ''Be brief.'' exampleMessages
             (modelOrDefault exampleImports None) (useToolsOrDefault None)) None]
   \<and> outcome (generateMessage compactJSON exampleImports forbiddenProvider openrouterService
                ''Be brief.'' exampleMessages None None None) =
       Inr (chatResponse compactJSON exampleCompletion)"
proof -
  have caught: "primaryAttempt compactJSON forbiddenProvider this request None = Inl forbidden"
    for this request
    by (simp add: primaryAttempt_def forbiddenProvider_def)
  have unlikely: "\<not> likelyNeedsChatAPI hostService forbidden"
    by (simp add: likelyNeedsChatAPI_def hostService_def OpenAIService_constructor_def
          forbidden_def upper_def)
  have base: "baseURL (openai hostService) = Some ''https://openrouter.ai/api/v1''"
    by (simp add: hostService_def OpenAIService_constructor_def)
  show ?thesis
    by (simp add: base generateMessage_no_fallback [OF caught unlikely]
          generateMessage_fallback [OF caught openrouter_likely] rethrow_def)
       (simp add: forbiddenProvider_def forbidden_def)
qed



lemma or_zero_reported:
  "or_zero (case u of None \<Rightarrow> None | Some x \<Rightarrow> field x) = reported u field"
  by (cases u) (simp_all split: option.splits)

lemma primaryAttempt_usage:
  assumes "primaryAttempt J P this request signal = Inr result"
  shows "\<exists>response. responses_create P (openai this) request signal = Inr response
           \<and> formatOpenAIResponse J (response_output response) = Inr (contentBlocks result)
           \<and> tokenUsage result =
               \<lparr>inputTokens = reported (usage response) input_tokens,
                outputTokens = reported (usage response) output_tokens,
                totalTokens = reported (usage response) total_tokens\<rparr>"
  using assms
  by (auto simp add: primaryAttempt_def or_zero_reported split: sum.splits)

lemma chatResponse_usage:
  "tokenUsage (chatResponse J completion) =
     \<lparr>inputTokens = reported (chat_usage completion) prompt_tokens,
      outputTokens = reported (chat_usage completion) completion_tokens,
      totalTokens = reported (chat_usage completion) chat_total_tokens\<rparr>"
  by (simp add: chatResponse_def or_zero_reported)

text \<open>
  Claim C6. Whenever \<^verbatim>\<open>generateMessage\<close> returns a result, its token usage is that of
  the provider's answer that the result comes from (the response of the Responses
  endpoint, or the completion of the fallback), count by count, with \<open>0\<close> for a count
  that the provider did not report.
\<close>

theorem token_usage_passed_through:
  assumes returned:
    "outcome (generateMessage J I P this systemPrompt messages model useTools signal) =
       Inr result"
  shows
    "(\<exists>response.
        responses_create P (openai this)
          (responsesRequest J I systemPrompt messages (modelOrDefault I model)
             (useToolsOrDefault useTools)) signal = Inr response
        \<and> formatOpenAIResponse J (response_output response) = Inr (contentBlocks result)
        \<and> tokenUsage result =
            \<lparr>inputTokens = reported (usage response) input_tokens,
             outputTokens = reported (usage response) output_tokens,
             totalTokens = reported (usage response) total_tokens\<rparr>)
     \<or> (\<exists>completion.
          chat_completions_create P (openai this)
            (chatRequest I systemPrompt messages (modelOrDefault I model)
               (useToolsOrDefault useTools)) signal = Inr completion
          \<and> contentBlocks result = chatContentBlocks J completion
          \<and> tokenUsage result =
              \<lparr>inputTokens = reported (chat_usage completion) prompt_tokens,
               outputTokens = reported (chat_usage completion) completion_tokens,
               totalTokens = reported (chat_usage completion) chat_total_tokens\<rparr>)"
proof (cases "primaryAttempt J P this
                (responsesRequest J I systemPrompt messages (modelOrDefault I model)
                   (useToolsOrDefault useTools)) signal")
  case (Inr response)
  with returned have "response = result"
    by (simp add: generateMessage_primary [OF Inr])
  with primaryAttempt_usage Inr show ?thesis
    by blast
next
  case (Inl error)
  show ?thesis
  proof (cases "likelyNeedsChatAPI this error")
    case True
    from returned obtain completion where
      answered: "chat_completions_create P (openai this)
                   (chatRequest I systemPrompt messages (modelOrDefault I model)
                      (useToolsOrDefault useTools)) signal = Inr completion"
      and result: "result = chatResponse J completion"
      by (auto simp add: generateMessage_fallback [OF Inl True] split: sum.splits)
    then show ?thesis
      by (simp add: chatResponse_usage) (simp add: chatResponse_def)
  next
    case False
    with returned show ?thesis
      by (simp add: generateMessage_no_fallback [OF Inl False])
  qed
qed

lemma exampleResponse_blocks:
  "formatOpenAIResponse compactJSON (response_output exampleResponse) =
     Inr [Thinking ''gAAAA'' ''rs_1'', Text ''Hello'', Text ''Refusal: not that'',
          ToolUse ''call_1'' (Some ''computer_click_mouse'') (JObject [(''x'', JNumber 1)]),
          Text ''{\"type\":\"mcp_call\",\"id\":\"mcp_1\"}'']"
  by (simp add: formatOpenAIResponse_collect exampleResponse_def parse_example
        stringify_item_example readAsReasoning_def)

theorem token_usage_passed_through_witness:
  "outcome (generateMessage compactJSON exampleImports respondingProvider directService
              ''Be brief.'' exampleMessages (Some ''gpt-4.1-2025-04-14'') (Some False) None) =
     Inr \<lparr>contentBlocks =
            [Thinking ''gAAAA'' ''rs_1'', Text ''Hello'', Text ''Refusal: not that'',
             ToolUse ''call_1'' (Some ''computer_click_mouse'') (JObject [(''x'', JNumber 1)]),
             Text ''{\"type\":\"mcp_call\",\"id\":\"mcp_1\"}''],
          tokenUsage = \<lparr>inputTokens = 10, outputTokens = 0, totalTokens = 15\<rparr>\<rparr>"
proof -
  have attempt:
    "primaryAttempt compactJSON respondingProvider directService request None =
       Inr \<lparr>contentBlocks =
              [Thinking ''gAAAA'' ''rs_1'', Text ''Hello'', Text ''Refusal: not that'',
               ToolUse ''call_1'' (Some ''computer_click_mouse'')
                 (JObject [(''x'', JNumber 1)]),
               Text ''{\"type\":\"mcp_call\",\"id\":\"mcp_1\"}''],
            tokenUsage =
              \<lparr>inputTokens = or_zero (input_tokens (the (usage exampleResponse))),
               outputTokens = or_zero (output_tokens (the (usage exampleResponse))),
               totalTokens = or_zero (total_tokens (the (usage exampleResponse)))\<rparr>\<rparr>"
    for request
    by (simp add: primaryAttempt_def respondingProvider_def exampleResponse_blocks)
       (simp add: exampleResponse_def)
  note returned = generateMessage_primary [OF attempt, THEN arg_cong [where f = outcome]]
  have "responses_create respondingProvider (openai directService) request None =
          Inr exampleResponse" for request
    by (simp add: respondingProvider_def)
  moreover have "chat_completions_create respondingProvider (openai directService) request None =
          Inl notFound" for request
    by (simp add: respondingProvider_def)
  moreover note token_usage_passed_through
                  [of compactJSON exampleImports respondingProvider directService
                      "''Be brief.''" exampleMessages "Some ''gpt-4.1-2025-04-14''"
                      "Some False" None, OF returned [simplified]]
  ultimately show ?thesis
    by (simp add: returned exampleResponse_def)
qed

lemma or_string_cases:
  "or_string a d = (if absent a then d else the a)"
  by (cases a) (simp_all add: absent_def)

lemma toolCallBlock_malformed:
  assumes "functionArguments tc = None
           \<or> functionArguments tc = Some []
           \<or> (\<exists>a msg. functionArguments tc = Some a \<and> parse J a = Inl msg)"
  shows "toolCallBlock J tc =
           ToolUse (if absent (tc_id tc)
                    then (if absent (functionName tc) then ''tool_call''
                          else the (functionName tc))
                    else the (tc_id tc))
             (functionName tc) (JObject [])"
  using assms
  by (auto simp add: toolCallBlock_def Let_def or_string_cases)

text \<open>
  Claim C9. On the fallback path, once the Chat Completions call has answered,
  \<^verbatim>\<open>generateMessage\<close> returns a result whose blocks end with one tool use block for each
  tool call, whatever the arguments of the tool calls are. For a tool call whose
  arguments are absent, empty or not valid JSON the input of the block is the empty
  object; its id is the id of the tool call, falls back to the function name where the
  tool call has no id, and to \<^verbatim>\<open>tool_call\<close> where it has no name either. By contrast the
  conversion of the primary path throws on a \<^verbatim>\<open>function_call\<close> item whose arguments do
  not parse.
\<close>

theorem fallback_tolerates_malformed_arguments:
  assumes caught:
    "primaryAttempt J P this
       (responsesRequest J I systemPrompt messages (modelOrDefault I model)
          (useToolsOrDefault useTools)) signal = Inl error"
    and likely: "likelyNeedsChatAPI this error"
    and answered:
    "chat_completions_create P (openai this)
       (chatRequest I systemPrompt messages (modelOrDefault I model)
          (useToolsOrDefault useTools)) signal = Inr completion"
  shows
    "(\<exists>result texts.
        outcome (generateMessage J I P this systemPrompt messages model useTools signal) =
          Inr result
        \<and> contentBlocks result =
            texts @ map (toolCallBlock J) (completionToolCalls completion))
     \<and> (\<forall>tc. functionArguments tc = None
               \<or> functionArguments tc = Some []
               \<or> (\<exists>a msg. functionArguments tc = Some a \<and> parse J a = Inl msg)
            \<longrightarrow> (\<exists>i. toolCallBlock J tc = ToolUse i (functionName tc) (JObject [])
                      \<and> (\<not> absent (tc_id tc) \<longrightarrow> Some i = tc_id tc)
                      \<and> (absent (tc_id tc) \<and> \<not> absent (functionName tc)
                           \<longrightarrow> Some i = functionName tc)
                      \<and> (absent (tc_id tc) \<and> absent (functionName tc)
                           \<longrightarrow> i = ''tool_call'')))
     \<and> (\<forall>call_id n a msg before after.
           parse J a = Inl msg
           \<longrightarrow> formatOpenAIResponse J [FunctionCall call_id n a] = Inl (SyntaxError msg)
               \<and> (\<exists>e. formatOpenAIResponse J (before @ FunctionCall call_id n a # after) =
                          Inl e))"
proof (intro conjI allI impI)
  show "\<exists>result texts.
          outcome (generateMessage J I P this systemPrompt messages model useTools signal) =
            Inr result
          \<and> contentBlocks result =
              texts @ map (toolCallBlock J) (completionToolCalls completion)"
    by (simp add: generateMessage_fallback [OF caught likely] answered chatResponse_def
          chatContentBlocks_shape)
next
  fix tc
  assume "functionArguments tc = None
          \<or> functionArguments tc = Some []
          \<or> (\<exists>a msg. functionArguments tc = Some a \<and> parse J a = Inl msg)"
  from toolCallBlock_malformed [OF this]
  show "\<exists>i. toolCallBlock J tc = ToolUse i (functionName tc) (JObject [])
              \<and> (\<not> absent (tc_id tc) \<longrightarrow> Some i = tc_id tc)
              \<and> (absent (tc_id tc) \<and> \<not> absent (functionName tc)
                   \<longrightarrow> Some i = functionName tc)
              \<and> (absent (tc_id tc) \<and> absent (functionName tc) \<longrightarrow> i = ''tool_call'')"
    by (auto simp add: absent_def)
next
  fix call_id n a msg before after
  assume bad: "parse J a = Inl msg"
  then show "formatOpenAIResponse J [FunctionCall call_id n a] = Inl (SyntaxError msg)"
    by (simp add: formatOpenAIResponse_collect)
  from bad show "\<exists>e. formatOpenAIResponse J (before @ FunctionCall call_id n a # after) = Inl e"
    by (simp add: formatOpenAIResponse_collect collect_append split: sum.splits)
qed

theorem fallback_tolerates_malformed_arguments_witness:
  "primaryAttempt compactJSON malformedProvider openrouterService
     (responsesRequest compactJSON exampleImports ''Be brief.'' exampleMessages
        (modelOrDefault exampleImports None) (useToolsOrDefault None)) None
     = Inl (SyntaxError ''Unexpected token in JSON'')
   \<and> likelyNeedsChatAPI openrouterService (SyntaxError ''Unexpected token in JSON'')
   \<and> chat_completions_create malformedProvider (openai openrouterService)
       (chatRequest exampleImports ''Be brief.'' exampleMessages
          (modelOrDefault exampleImports None) (useToolsOrDefault None)) None
       = Inr exampleCompletion
   \<and> (\<exists>result texts.
         outcome (generateMessage compactJSON exampleImports malformedProvider
                    openrouterService ''Be brief.'' exampleMessages None None None) = Inr result
         \<and> contentBlocks result =
             texts @
             [ToolUse ''call_1'' (Some ''computer_click_mouse'') (JObject [(''x'', JNumber 1)]),
              ToolUse ''computer_type_text'' (Some ''computer_type_text'') (JObject []),
              ToolUse ''tool_call'' None (JObject [])])
   \<and> parse compactJSON ''{bad'' = Inl ''Unexpected token in JSON''
   \<and> toolCallBlock compactJSON
       \<lparr>tc_id = None,
        tc_function = Some \<lparr>fn_name = Some ''computer_type_text'',
                             fn_arguments = Some ''{bad''\<rparr>\<rparr>
       = ToolUse ''computer_type_text'' (Some ''computer_type_text'') (JObject [])
   \<and> toolCallBlock compactJSON \<lparr>tc_id = None, tc_function = None\<rparr>
       = ToolUse ''tool_call'' None (JObject [])
   \<and> formatOpenAIResponse compactJSON
       [FunctionCall ''call_1'' (Some ''computer_click_mouse'') ''{bad'']
       = Inl (SyntaxError ''Unexpected token in JSON'')"
proof -
  have caught:
    "primaryAttempt compactJSON malformedProvider openrouterService
       (responsesRequest compactJSON exampleImports ''Be brief.'' exampleMessages
          (modelOrDefault exampleImports None) (useToolsOrDefault None)) None
       = Inl (SyntaxError ''Unexpected token in JSON'')"
    by (simp add: primaryAttempt_def malformedProvider_def malformedResponse_def
          formatOpenAIResponse_collect parse_malformed)
  have answered:
    "chat_completions_create malformedProvider (openai openrouterService)
       (chatRequest exampleImports ''Be brief.'' exampleMessages
          (modelOrDefault exampleImports None) (useToolsOrDefault None)) None
       = Inr exampleCompletion"
    by (simp add: malformedProvider_def)
  note claim = fallback_tolerates_malformed_arguments [OF caught openrouter_likely answered]
  from claim have returned:
    "\<exists>result texts.
       outcome (generateMessage compactJSON exampleImports malformedProvider
                  openrouterService ''Be brief.'' exampleMessages None None None) = Inr result
       \<and> contentBlocks result =
           texts @ map (toolCallBlock compactJSON) (completionToolCalls exampleCompletion)"
    by blast
  from claim have blocks:
    "functionArguments tc = None
       \<or> functionArguments tc = Some []
       \<or> (\<exists>a msg. functionArguments tc = Some a \<and> parse compactJSON a = Inl msg)
     \<Longrightarrow> \<exists>i. toolCallBlock compactJSON tc = ToolUse i (functionName tc) (JObject [])
              \<and> (\<not> absent (tc_id tc) \<longrightarrow> Some i = tc_id tc)
              \<and> (absent (tc_id tc) \<and> \<not> absent (functionName tc)
                   \<longrightarrow> Some i = functionName tc)
              \<and> (absent (tc_id tc) \<and> absent (functionName tc) \<longrightarrow> i = ''tool_call'')"
    for tc
    by blast
  from claim have unguarded:
    "parse compactJSON a = Inl msg
     \<Longrightarrow> formatOpenAIResponse compactJSON [FunctionCall call_id n a] = Inl (SyntaxError msg)"
    for call_id n a msg
    by blast
  have named:
    "toolCallBlock compactJSON
       \<lparr>tc_id = None,
        tc_function = Some \<lparr>fn_name = Some ''computer_type_text'',
                             fn_arguments = Some ''{bad''\<rparr>\<rparr>
       = ToolUse ''computer_type_text'' (Some ''computer_type_text'') (JObject [])"
    using blocks [of "\<lparr>tc_id = None,
                       tc_function = Some \<lparr>fn_name = Some ''computer_type_text'',
                                            fn_arguments = Some ''{bad''\<rparr>\<rparr>"]
    by (auto simp add: functionArguments_def functionName_def absent_def parse_malformed)
  have unnamed:
    "toolCallBlock compactJSON \<lparr>tc_id = None, tc_function = None\<rparr>
       = ToolUse ''tool_call'' None (JObject [])"
    using blocks [of "\<lparr>tc_id = None, tc_function = None\<rparr>"]
    by (auto simp add: functionArguments_def functionName_def absent_def)
  from returned caught answered named unnamed unguarded [OF parse_malformed]
  show ?thesis
    by (simp add: openrouter_likely toolCallBlock_example parse_malformed)
qed

end
